theory Spec2Isabelle
  imports Main "HOL-Library.Sublist"
begin

section \<open>JavaScript strings\<close>

text \<open>
  A JavaScript string is modelled as a \<open>string\<close>: one \<open>char\<close> per code unit. The code
  under study only ever distinguishes ASCII characters (character classes of regular
  expressions, the separator \<open>/\<close>, ASCII search strings), so the code units that matter are
  all below 128.
\<close>

definition isDigit :: "char \<Rightarrow> bool" where
  "isDigit c = (let n = (of_char c :: nat) in 48 \<le> n \<and> n \<le> 57)"

definition isLower :: "char \<Rightarrow> bool" where
  "isLower c = (let n = (of_char c :: nat) in 97 \<le> n \<and> n \<le> 122)"

definition isUpper :: "char \<Rightarrow> bool" where
  "isUpper c = (let n = (of_char c :: nat) in 65 \<le> n \<and> n \<le> 90)"

text \<open>\<open>String.prototype.trim\<close>: white space and line terminators, as far as they are
  code units below 256 (TAB, LF, VT, FF, CR, SP, NBSP).\<close>

definition isWhiteSpace :: "char \<Rightarrow> bool" where
  "isWhiteSpace c = ((of_char c :: nat) \<in> {9, 10, 11, 12, 13, 32, 160})"

definition trim :: "string \<Rightarrow> string" where
  "trim s = rev (dropWhile isWhiteSpace (rev (dropWhile isWhiteSpace s)))"

text \<open>\<open>String.prototype.toLowerCase\<close> on the ASCII letters.\<close>

definition toLowerChar :: "char \<Rightarrow> char" where
  "toLowerChar c =
     (case map_of (zip ''ABCDEFGHIJKLMNOPQRSTUVWXYZ'' ''abcdefghijklmnopqrstuvwxyz'') c of
        Some l \<Rightarrow> l
      | None \<Rightarrow> c)"

definition toLowerCase :: "string \<Rightarrow> string" where
  "toLowerCase s = map toLowerChar s"

text \<open>\<open>s.includes(sub)\<close>: \<open>sub\<close> occurs in \<open>s\<close> as a contiguous block.\<close>

fun str_includes :: "string \<Rightarrow> string \<Rightarrow> bool" where
  "str_includes [] sub = (sub = [])"
| "str_includes (c # cs) sub = (prefix sub (c # cs) \<or> str_includes cs sub)"

text \<open>\<open>xs.join(sep)\<close>.\<close>

fun join :: "string \<Rightarrow> string list \<Rightarrow> string" where
  "join sep [] = []"
| "join sep [x] = x"
| "join sep (x # y # ys) = x @ sep @ join sep (y # ys)"

text \<open>\<open>s.substring(0, n)\<close>.\<close>

definition substring0 :: "nat \<Rightarrow> string \<Rightarrow> string" where
  "substring0 n s = take n s"

section \<open>Regular expressions\<close>

text \<open>
  The validators test their input against anchored regular expressions
  (\<open>/^...$/\<close>, no flags), none of which uses back-references or look-around. Such a test
  succeeds exactly when the whole input is in the language of the expression. The matcher
  below decides this by taking derivatives character by character.
\<close>

datatype rexp =
    Zero
  | One
  | Cls "char \<Rightarrow> bool"
  | Alt rexp rexp
  | Seq rexp rexp
  | Star rexp

fun nullable :: "rexp \<Rightarrow> bool" where
  "nullable Zero = False"
| "nullable One = True"
| "nullable (Cls P) = False"
| "nullable (Alt r s) = (nullable r \<or> nullable s)"
| "nullable (Seq r s) = (nullable r \<and> nullable s)"
| "nullable (Star r) = True"

fun deriv :: "char \<Rightarrow> rexp \<Rightarrow> rexp" where
  "deriv c Zero = Zero"
| "deriv c One = Zero"
| "deriv c (Cls P) = (if P c then One else Zero)"
| "deriv c (Alt r s) = Alt (deriv c r) (deriv c s)"
| "deriv c (Seq r s) =
     (if nullable r then Alt (Seq (deriv c r) s) (deriv c s) else Seq (deriv c r) s)"
| "deriv c (Star r) = Seq (deriv c r) (Star r)"

fun matches :: "rexp \<Rightarrow> string \<Rightarrow> bool" where
  "matches r [] = nullable r"
| "matches r (c # cs) = matches (deriv c r) cs"

text \<open>Derived forms: \<open>r+\<close>, \<open>r?\<close>, \<open>r{0,n}\<close>, a single character, a literal word.\<close>

definition Plus :: "rexp \<Rightarrow> rexp" where
  "Plus r = Seq r (Star r)"

definition Opt :: "rexp \<Rightarrow> rexp" where
  "Opt r = Alt One r"

primrec UpTo :: "nat \<Rightarrow> rexp \<Rightarrow> rexp" where
  "UpTo 0 r = One"
| "UpTo (Suc n) r = Opt (Seq r (UpTo n r))"

definition Chr :: "char \<Rightarrow> rexp" where
  "Chr a = Cls (\<lambda>c. c = a)"

primrec Lit :: "string \<Rightarrow> rexp" where
  "Lit [] = One"
| "Lit (a # as) = Seq (Chr a) (Lit as)"

subsection \<open>The language of an expression\<close>

definition conc :: "string set \<Rightarrow> string set \<Rightarrow> string set" where
  "conc A B = {u @ v | u v. u \<in> A \<and> v \<in> B}"

inductive_set star :: "string set \<Rightarrow> string set" for A :: "string set" where
  star_nil: "[] \<in> star A"
| star_app: "u \<in> A \<Longrightarrow> v \<in> star A \<Longrightarrow> u @ v \<in> star A"

fun lang :: "rexp \<Rightarrow> string set" where
  "lang Zero = {}"
| "lang One = {[]}"
| "lang (Cls P) = {[c] | c. P c}"
| "lang (Alt r s) = lang r \<union> lang s"
| "lang (Seq r s) = conc (lang r) (lang s)"
| "lang (Star r) = star (lang r)"

section \<open>Validation\<close>

text \<open>\<open>validateBoardId\<close>: the pattern is \<open>/^[a-zA-Z0-9_\-\.]+$/\<close>.\<close>

definition boardIdChar :: "char \<Rightarrow> bool" where
  "boardIdChar c =
     (isLower c \<or> isUpper c \<or> isDigit c \<or> c = CHR ''_'' \<or> c = CHR ''-'' \<or> c = CHR ''.'')"

definition boardIdPattern :: rexp where
  "boardIdPattern = Plus (Cls boardIdChar)"

definition validateBoardId :: "string \<Rightarrow> bool" where
  "validateBoardId boardId =
     (if boardId = [] then False
      else if length boardId < 2 \<or> length boardId > 50 then False
      else matches boardIdPattern boardId)"

text \<open>\<open>validateVersion\<close>: the pattern is
  \<open>/^[\^~><=]*\d+(\.\d+){0,2}([a-zA-Z0-9\-\+\.]*)?$/\<close>.\<close>

definition rangeChar :: "char \<Rightarrow> bool" where
  "rangeChar c =
     (c = CHR ''^'' \<or> c = CHR ''~'' \<or> c = CHR ''>'' \<or> c = CHR ''<'' \<or> c = CHR ''='')"

definition suffixChar :: "char \<Rightarrow> bool" where
  "suffixChar c =
     (isLower c \<or> isUpper c \<or> isDigit c \<or> c = CHR ''-'' \<or> c = CHR ''+'' \<or> c = CHR ''.'')"

definition versionPattern :: rexp where
  "versionPattern =
     Seq (Star (Cls rangeChar))
       (Seq (Plus (Cls isDigit))
         (Seq (UpTo 2 (Seq (Chr CHR ''.'') (Plus (Cls isDigit))))
           (Opt (Star (Cls suffixChar)))))"

definition validateVersion :: "string \<Rightarrow> bool" where
  "validateVersion version =
     (if version = [] then False
      else matches versionPattern version \<and> length version \<le> 50)"

text \<open>
  The shape of a version as the specification words it: an optional single range prefix
  out of a given list, then one to three dot-separated numeric components, then an
  optional pre-release or build suffix. The suffix is read as semantic versioning has it:
  a pre-release part is a hyphen and dot-separated identifiers, a build part is a plus sign
  and dot-separated identifiers, an identifier is a non-empty run of letters, digits and
  hyphens.
\<close>

definition identChar :: "char \<Rightarrow> bool" where
  "identChar c = (isLower c \<or> isUpper c \<or> isDigit c \<or> c = CHR ''-'')"

definition identifiers :: rexp where
  "identifiers =
     Seq (Plus (Cls identChar)) (Star (Seq (Chr CHR ''.'') (Plus (Cls identChar))))"

primrec AltList :: "rexp list \<Rightarrow> rexp" where
  "AltList [] = Zero"
| "AltList (r # rs) = Alt r (AltList rs)"

definition versionShape :: "string list \<Rightarrow> rexp" where
  "versionShape allowedPrefixes =
     Seq (Opt (AltList (map Lit allowedPrefixes)))
       (Seq (Plus (Cls isDigit))
         (Seq (UpTo 2 (Seq (Chr CHR ''.'') (Plus (Cls isDigit))))
           (Seq (Opt (Seq (Chr CHR ''-'') identifiers))
                (Opt (Seq (Chr CHR ''+'') identifiers)))))"

text \<open>The prefixes that the specification lists, and the same list with the prefix \<open>=\<close>
  that the comment in the code lists as well.\<close>

definition specPrefixes :: "string list" where
  "specPrefixes = [''^'', ''~'', ''>'', ''<'', ''>='', ''<='']"

definition codePrefixes :: "string list" where
  "codePrefixes = [''^'', ''~'', ''>'', ''<'', ''>='', ''<='', ''='']"

text \<open>The predicate that the specification words: at most 50 characters, of that shape.\<close>

definition validateVersionSpec :: "string \<Rightarrow> bool" where
  "validateVersionSpec s = (length s \<le> 50 \<and> matches (versionShape specPrefixes) s)"

text \<open>Every character class of an expression lies within a given class.\<close>

fun within :: "(char \<Rightarrow> bool) \<Rightarrow> rexp \<Rightarrow> bool" where
  "within P Zero = True"
| "within P One = True"
| "within P (Cls Q) = (\<forall>c. Q c \<longrightarrow> P c)"
| "within P (Alt r s) = (within P r \<and> within P s)"
| "within P (Seq r s) = (within P r \<and> within P s)"
| "within P (Star r) = within P r"

text \<open>A numeric component of a version: a non-empty run of decimal digits.\<close>

definition numeric :: "string \<Rightarrow> bool" where
  "numeric d = (d \<noteq> [] \<and> (\<forall>c\<in>set d. isDigit c))"

section \<open>Paths\<close>

text \<open>
  \<open>validateProjectPath\<close> calls \<open>path.resolve\<close> and \<open>path.normalize\<close> of the Node.js
  standard library. They are modelled in their POSIX form. \<open>path.resolve\<close> reads the
  working directory of the process, which is the parameter \<open>pcwd\<close> here.

  Both go through Node's \<open>normalizeString\<close>, which walks over the segments between
  separators: an empty segment and \<open>.\<close> are dropped, \<open>..\<close> removes the segment before it
  (or is kept, when nothing is left to remove and the path is relative), every other
  segment is kept.
\<close>

fun splitOn :: "char \<Rightarrow> string \<Rightarrow> string list" where
  "splitOn sep [] = [[]]"
| "splitOn sep (c # cs) =
     (if c = sep then [] # splitOn sep cs
      else (case splitOn sep cs of
              [] \<Rightarrow> [[c]]
            | seg # segs \<Rightarrow> (c # seg) # segs))"

text \<open>The segments kept so far are held in reverse order in \<open>res\<close>.\<close>

fun normalizeSegments :: "bool \<Rightarrow> string list \<Rightarrow> string list \<Rightarrow> string list" where
  "normalizeSegments allowAboveRoot res [] = rev res"
| "normalizeSegments allowAboveRoot res (seg # segs) =
     (if seg = [] \<or> seg = ''.'' then normalizeSegments allowAboveRoot res segs
      else if seg = ''..'' then
        (case res of
           [] \<Rightarrow>
             normalizeSegments allowAboveRoot (if allowAboveRoot then [''..''] else []) segs
         | lastSeg # res' \<Rightarrow>
             if lastSeg = ''..''
             then normalizeSegments allowAboveRoot
                    (if allowAboveRoot then ''..'' # res else res) segs
             else normalizeSegments allowAboveRoot res' segs)
      else normalizeSegments allowAboveRoot (seg # res) segs)"

definition normalizeString :: "string \<Rightarrow> bool \<Rightarrow> string" where
  "normalizeString path allowAboveRoot =
     join ''/'' (normalizeSegments allowAboveRoot [] (splitOn CHR ''/'' path))"

definition isAbsolute :: "string \<Rightarrow> bool" where
  "isAbsolute path = (case path of [] \<Rightarrow> False | c # _ \<Rightarrow> c = CHR ''/'')"

text \<open>\<open>path.resolve(p)\<close> with a single argument.\<close>

definition path_resolve :: "string \<Rightarrow> string \<Rightarrow> string" where
  "path_resolve pcwd p =
     (let (resolvedPath, resolvedAbsolute) =
            (if p = [] then ([], False) else (p @ ''/'', isAbsolute p));
          (resolvedPath, resolvedAbsolute) =
            (if resolvedAbsolute \<or> pcwd = [] then (resolvedPath, resolvedAbsolute)
             else (pcwd @ ''/'' @ resolvedPath, isAbsolute pcwd));
          resolvedPath = normalizeString resolvedPath (\<not> resolvedAbsolute)
      in if resolvedAbsolute then ''/'' @ resolvedPath
         else if resolvedPath \<noteq> [] then resolvedPath else ''.'')"

text \<open>\<open>path.normalize(p)\<close>.\<close>

definition path_normalize :: "string \<Rightarrow> string" where
  "path_normalize path =
     (if path = [] then ''.''
      else
        let trailingSeparator = (last path = CHR ''/'');
            norm = normalizeString path (\<not> isAbsolute path)
        in if norm = [] then
             (if isAbsolute path then ''/'' else if trailingSeparator then ''./'' else ''.'')
           else
             (let norm = (if trailingSeparator then norm @ ''/'' else norm)
              in if isAbsolute path then ''/'' @ norm else norm))"

section \<open>Errors\<close>

text \<open>
  A thrown value is a \<open>js_error\<close>. \<open>ExecError\<close> is an error with which the promisified
  \<open>execFile\<close> rejects: the record holds the properties that the code reads from it.
  \<open>JsError\<close> is a plain \<open>Error\<close>, \<open>SyntaxError\<close> what \<open>JSON.parse\<close> throws, \<open>ZodError\<close>
  what a schema throws (its issues and its message). \<open>PIOError\<close> is an instance of
  \<open>PlatformIOError\<close> or of one of its subclasses, with message, code and context.
\<close>

datatype js_code = CodeNum int | CodeStr string

record exec_error =
  err_name :: string
  err_message :: string
  err_killed :: bool
  err_signal :: "string option"
  err_code :: "js_code option"
  err_stdout :: "string option"
  err_stderr :: "string option"

record zod_issue =
  issue_path :: "string list"
  issue_message :: string

datatype ctx_value =
    CtxUndefined
  | CtxStr string
  | CtxNum int
  | CtxCode js_code
  | CtxIssues "zod_issue list"

datatype pio_class =
    PlatformIOErrorClass
  | PlatformIONotInstalledErrorClass
  | LibraryErrorClass
  | CommandTimeoutErrorClass

datatype js_error =
    ExecError exec_error
  | JsError string
  | SyntaxError string
  | ZodError "zod_issue list" string
  | PIOError pio_class string "string option" "(string \<times> ctx_value) list option"

definition PlatformIOError ::
    "string \<Rightarrow> string option \<Rightarrow> (string \<times> ctx_value) list option \<Rightarrow> js_error" where
  "PlatformIOError message code context = PIOError PlatformIOErrorClass message code context"

definition PlatformIONotInstalledError :: js_error where
  "PlatformIONotInstalledError =
     PIOError PlatformIONotInstalledErrorClass
       ''PlatformIO CLI is not installed or not found in PATH''
       (Some ''PLATFORMIO_NOT_INSTALLED'') None"

definition LibraryError :: "string \<Rightarrow> (string \<times> ctx_value) list option \<Rightarrow> js_error" where
  "LibraryError message context =
     PIOError LibraryErrorClass message (Some ''LIBRARY_ERROR'') context"

text \<open>Decimal notation of an integer, as in a template literal.\<close>

function show_nat :: "nat \<Rightarrow> string" where
  "show_nat n =
     (if n < 10 then [char_of (48 + n)]
      else show_nat (n div 10) @ [char_of (48 + n mod 10)])"
  by pat_completeness auto
termination
  by (relation "measure id") auto

definition show_int :: "int \<Rightarrow> string" where
  "show_int i = (if i < 0 then ''-'' @ show_nat (nat (- i)) else show_nat (nat i))"

definition CommandTimeoutError :: "string \<Rightarrow> int \<Rightarrow> js_error" where
  "CommandTimeoutError command timeout =
     PIOError CommandTimeoutErrorClass
       (''Command '' @ [CHR 0x27] @ command @ [CHR 0x27] @ '' timed out after ''
          @ show_int timeout @ ''ms'')
       (Some ''COMMAND_TIMEOUT'')
       (Some [(''command'', CtxStr command), (''timeout'', CtxNum timeout)])"

text \<open>The properties of a thrown value; a property that the object lacks is \<open>None\<close>
  (or \<open>False\<close> for the flag \<open>killed\<close>, which is only ever tested for truth).\<close>

fun error_name :: "js_error \<Rightarrow> string" where
  "error_name (ExecError e) = err_name e"
| "error_name (JsError m) = ''Error''"
| "error_name (SyntaxError m) = ''SyntaxError''"
| "error_name (ZodError issues m) = ''ZodError''"
| "error_name (PIOError PlatformIOErrorClass m c x) = ''PlatformIOError''"
| "error_name (PIOError PlatformIONotInstalledErrorClass m c x) = ''PlatformIONotInstalledError''"
| "error_name (PIOError LibraryErrorClass m c x) = ''LibraryError''"
| "error_name (PIOError CommandTimeoutErrorClass m c x) = ''CommandTimeoutError''"

fun error_message :: "js_error \<Rightarrow> string" where
  "error_message (ExecError e) = err_message e"
| "error_message (JsError m) = m"
| "error_message (SyntaxError m) = m"
| "error_message (ZodError issues m) = m"
| "error_message (PIOError cls m c x) = m"

fun error_killed :: "js_error \<Rightarrow> bool" where
  "error_killed (ExecError e) = err_killed e"
| "error_killed _ = False"

fun error_signal :: "js_error \<Rightarrow> string option" where
  "error_signal (ExecError e) = err_signal e"
| "error_signal _ = None"

fun error_code :: "js_error \<Rightarrow> js_code option" where
  "error_code (ExecError e) = err_code e"
| "error_code (PIOError cls m c x) = map_option CodeStr c"
| "error_code _ = None"

fun error_stdout :: "js_error \<Rightarrow> string option" where
  "error_stdout (ExecError e) = err_stdout e"
| "error_stdout _ = None"

fun error_stderr :: "js_error \<Rightarrow> string option" where
  "error_stderr (ExecError e) = err_stderr e"
| "error_stderr _ = None"

fun error_context :: "js_error \<Rightarrow> (string \<times> ctx_value) list option" where
  "error_context (PIOError cls m c x) = x"
| "error_context _ = None"

text \<open>\<open>error instanceof PlatformIOError\<close> (the class or a subclass) and
  \<open>error instanceof PlatformIONotInstalledError\<close>.\<close>

fun isPlatformIOError :: "js_error \<Rightarrow> bool" where
  "isPlatformIOError (PIOError cls m c x) = True"
| "isPlatformIOError _ = False"

fun isNotInstalledError :: "js_error \<Rightarrow> bool" where
  "isNotInstalledError (PIOError cls m c x) = (cls = PlatformIONotInstalledErrorClass)"
| "isNotInstalledError _ = False"

text \<open>\<open>`${error}`\<close>, that is \<open>Error.prototype.toString\<close>; a \<open>ZodError\<close> overrides it
  and answers with its message alone.\<close>

definition error_toString :: "js_error \<Rightarrow> string" where
  "error_toString e =
     (case e of
        ZodError issues message \<Rightarrow> message
      | _ \<Rightarrow>
          if error_name e = [] then error_message e
          else if error_message e = [] then error_name e
          else error_name e @ '': '' @ error_message e)"

text \<open>\<open>isPlatformIONotFoundError\<close>; every thrown value of the model is an \<open>Error\<close>.\<close>

definition isPlatformIONotFoundError :: "js_error \<Rightarrow> bool" where
  "isPlatformIONotFoundError error =
     (let message = toLowerCase (error_message error)
      in str_includes message ''enoent'' \<or>
         str_includes message ''not found'' \<or>
         str_includes message ''command not found'' \<or>
         (str_includes message ''platformio'' \<and> str_includes message ''not recognized''))"


text \<open>\<open>validateProjectPath\<close>; \<open>pcwd\<close> is the working directory of the process.\<close>

definition validateProjectPath :: "string \<Rightarrow> string \<Rightarrow> js_error + string" where
  "validateProjectPath pcwd projectPath =
     (if projectPath = [] then Inl (JsError ''Project path is required and must be a string'')
      else
        let sanitized = trim projectPath;
            absolutePath = path_resolve pcwd sanitized;
            normalizedPath = path_normalize absolutePath
        in if str_includes normalizedPath ''..'' \<or> normalizedPath \<noteq> absolutePath
           then Inl (JsError ''Invalid project path: path traversal detected'')
           else Inr absolutePath)"

section \<open>Executor\<close>

text \<open>
  The child process is outside the program. It is the parameter \<open>spawn\<close>: given the name
  of the binary, the argument vector and the options handed to \<open>execFile\<close>, it answers
  with the resolved value of the promise (\<open>Inr\<close>) or with the error of its rejection
  (\<open>Inl\<close>). Every function that runs processes returns, next to its own outcome, the
  list of the calls it made to \<open>spawn\<close>, in order.
\<close>

record exec_output =
  out_stdout :: "string option"
  out_stderr :: "string option"

record spawn_options =
  so_cwd :: "string option"
  so_timeout :: int
  so_maxBuffer :: int

record options =
  opt_cwd :: "string option"
  opt_timeout :: "int option"

record CommandResult =
  stdout :: string
  stderr :: string
  exitCode :: js_code

type_synonym spawn_call = "string \<times> string list \<times> spawn_options"

type_synonym spawner = "string \<Rightarrow> string list \<Rightarrow> spawn_options \<Rightarrow> exec_error + exec_output"

definition DEFAULT_TIMEOUT :: int where
  "DEFAULT_TIMEOUT = 300000"

text \<open>\<open>x || ''\<close> on a string that may be undefined, and the truth value of \<open>error.code\<close>.\<close>

definition orEmpty :: "string option \<Rightarrow> string" where
  "orEmpty x = (case x of None \<Rightarrow> [] | Some s \<Rightarrow> s)"

fun truthyCode :: "js_code option \<Rightarrow> bool" where
  "truthyCode None = False"
| "truthyCode (Some (CodeNum n)) = (n \<noteq> 0)"
| "truthyCode (Some (CodeStr s)) = (s \<noteq> [])"

text \<open>The options that \<open>execPioCommand\<close> hands to \<open>execFile\<close>, for both binaries.\<close>

definition spawnOptions :: "options \<Rightarrow> spawn_options" where
  "spawnOptions opts =
     \<lparr>so_cwd = opt_cwd opts,
      so_timeout = (case opt_timeout opts of None \<Rightarrow> DEFAULT_TIMEOUT | Some t \<Rightarrow> t),
      so_maxBuffer = 10 * 1024 * 1024\<rparr>"

text \<open>The body of the outer \<open>try\<close> of \<open>execPioCommand\<close>, up to the value of \<open>result\<close>:
  \<open>pio\<close> first, then \<open>platformio\<close> when the first error looks like "not found".\<close>

definition execPioCommand_try ::
    "spawner \<Rightarrow> string list \<Rightarrow> spawn_options \<Rightarrow> spawn_call list \<times> (js_error + exec_output)" where
  "execPioCommand_try spawn args so =
     (case spawn ''pio'' args so of
        Inr result \<Rightarrow> ([(''pio'', args, so)], Inr result)
      | Inl firstError \<Rightarrow>
          if isPlatformIONotFoundError (ExecError firstError) then
            (case spawn ''platformio'' args so of
               Inr result \<Rightarrow> ([(''pio'', args, so), (''platformio'', args, so)], Inr result)
             | Inl secondError \<Rightarrow>
                 if isPlatformIONotFoundError (ExecError secondError)
                 then ([(''pio'', args, so), (''platformio'', args, so)],
                       Inl PlatformIONotInstalledError)
                 else ([(''pio'', args, so), (''platformio'', args, so)],
                       Inl (ExecError secondError)))
          else ([(''pio'', args, so)], Inl (ExecError firstError)))"

text \<open>The outer \<open>catch\<close> of \<open>execPioCommand\<close>.\<close>

definition execPioCommand_catch :: "string list \<Rightarrow> int \<Rightarrow> js_error \<Rightarrow> js_error + CommandResult" where
  "execPioCommand_catch args timeout error =
     (if error_killed error \<and> error_signal error = Some ''SIGTERM''
      then Inl (CommandTimeoutError (join '' '' args) timeout)
      else if isPlatformIONotFoundError error then Inl PlatformIONotInstalledError
      else if truthyCode (error_code error) \<and> error_stdout error \<noteq> None
      then Inr \<lparr>stdout = orEmpty (error_stdout error),
                stderr = orEmpty (error_stderr error),
                exitCode = the (error_code error)\<rparr>
      else Inl error)"

definition execPioCommand ::
    "spawner \<Rightarrow> string list \<Rightarrow> options \<Rightarrow> spawn_call list \<times> (js_error + CommandResult)" where
  "execPioCommand spawn args opts =
     (let so = spawnOptions opts;
          (calls, r) = execPioCommand_try spawn args so
      in (calls,
          case r of
            Inr result \<Rightarrow>
              Inr \<lparr>stdout = orEmpty (out_stdout result),
                   stderr = orEmpty (out_stderr result),
                   exitCode = CodeNum 0\<rparr>
          | Inl error \<Rightarrow> execPioCommand_catch args (so_timeout so) error))"

text \<open>
  \<open>parsePioJsonOutput\<close>. \<open>JSON.parse\<close> and the schema belong to the JavaScript
  runtime and to the Zod library: they are the parameters \<open>JSON_parse\<close> and \<open>schema\<close>, each
  answering with a value or with the error it throws.
\<close>

definition parsePioJsonOutput ::
    "(string \<Rightarrow> js_error + 'j) \<Rightarrow> ('j \<Rightarrow> js_error + 'a) \<Rightarrow> string \<Rightarrow> js_error + 'a" where
  "parsePioJsonOutput JSON_parse schema output =
     (if output = [] \<or> length (trim output) = 0
      then Inl (PlatformIOError ''Empty output from PlatformIO command'' None None)
      else
        (case (case JSON_parse output of
                 Inl e \<Rightarrow> Inl e
               | Inr parsed \<Rightarrow> schema parsed) of
           Inr v \<Rightarrow> Inr v
         | Inl error \<Rightarrow>
             (case error of
                ZodError errors message \<Rightarrow>
                  Inl (PlatformIOError
                         (''Failed to parse PlatformIO output: '' @ message)
                         (Some ''PARSE_ERROR'')
                         (Some [(''zodError'', CtxIssues errors),
                                (''output'', CtxStr (substring0 500 output))]))
              | SyntaxError message \<Rightarrow>
                  Inl (PlatformIOError
                         (''Invalid JSON output from PlatformIO: '' @ message)
                         (Some ''INVALID_JSON'')
                         (Some [(''output'', CtxStr (substring0 500 output))]))
              | _ \<Rightarrow> Inl error)))"

definition checkPlatformIOInstalled :: "spawner \<Rightarrow> spawn_call list \<times> (js_error + bool)" where
  "checkPlatformIOInstalled spawn =
     (let (calls, r) = execPioCommand spawn [''--version''] \<lparr>opt_cwd = None, opt_timeout = Some 5000\<rparr>
      in (calls,
          case r of
            Inr result \<Rightarrow>
              Inr (exitCode result = CodeNum 0 \<and> str_includes (stdout result) ''PlatformIO'')
          | Inl error \<Rightarrow> if isNotInstalledError error then Inr False else Inl error))"

text \<open>The methods of \<open>PlatformIOExecutor\<close>.\<close>

definition execute ::
    "spawner \<Rightarrow> string \<Rightarrow> string list \<Rightarrow> options \<Rightarrow> spawn_call list \<times> (js_error + CommandResult)" where
  "execute spawn command args opts = execPioCommand spawn (command # args) opts"

definition checkInstallation :: "spawner \<Rightarrow> spawn_call list \<times> (js_error + bool)" where
  "checkInstallation spawn = checkPlatformIOInstalled spawn"

definition executeWithJsonOutput ::
    "spawner \<Rightarrow> (string \<Rightarrow> js_error + 'j) \<Rightarrow> ('j \<Rightarrow> js_error + 'a) \<Rightarrow>
     string \<Rightarrow> string list \<Rightarrow> options \<Rightarrow> spawn_call list \<times> (js_error + 'a)" where
  "executeWithJsonOutput spawn JSON_parse schema command args opts =
     (let fullArgs = (if ''--json-output'' \<in> set args then args else args @ [''--json-output'']);
          (calls, r) = execute spawn command fullArgs opts
      in (calls,
          case r of
            Inl error \<Rightarrow> Inl error
          | Inr result \<Rightarrow>
              if exitCode result \<noteq> CodeNum 0
              then Inl (PlatformIOError
                          (''PlatformIO command failed: '' @ command @ '' '' @ join '' '' args)
                          (Some ''COMMAND_FAILED'')
                          (Some [(''stderr'', CtxStr (stderr result)),
                                 (''exitCode'', CtxCode (exitCode result))]))
              else parsePioJsonOutput JSON_parse schema (stdout result)))"

section \<open>Listing libraries and devices\<close>

text \<open>A value that may be undefined, in a condition or in a context map.\<close>

definition truthyStr :: "string option \<Rightarrow> bool" where
  "truthyStr x = (case x of None \<Rightarrow> False | Some s \<Rightarrow> s \<noteq> [])"

definition ctxOfStr :: "string option \<Rightarrow> ctx_value" where
  "ctxOfStr x = (case x of None \<Rightarrow> CtxUndefined | Some s \<Rightarrow> CtxStr s)"

text \<open>\<open>listInstalledLibraries\<close>; the schema \<open>LibrariesArraySchema\<close> is the parameter
  \<open>schema\<close>.\<close>

definition listInstalledLibraries ::
    "string \<Rightarrow> spawner \<Rightarrow> (string \<Rightarrow> js_error + 'j) \<Rightarrow> ('j \<Rightarrow> js_error + 'a list) \<Rightarrow>
     string option \<Rightarrow> spawn_call list \<times> (js_error + 'a list)" where
  "listInstalledLibraries pcwd spawn JSON_parse schema projectDir =
     (let (calls, r) =
            (case (if truthyStr projectDir
                   then (case validateProjectPath pcwd (the projectDir) of
                           Inl e \<Rightarrow> Inl e
                         | Inr validatedPath \<Rightarrow> Inr (Some validatedPath))
                   else Inr None) of
               Inl e \<Rightarrow> ([], Inl e)
             | Inr execCwd \<Rightarrow>
                 executeWithJsonOutput spawn JSON_parse schema ''lib'' [''list'']
                   \<lparr>opt_cwd = execCwd, opt_timeout = Some 30000\<rparr>)
      in (calls,
          case r of
            Inr result \<Rightarrow> Inr result
          | Inl error \<Rightarrow>
              if isPlatformIOError error \<and>
                 (let errorMessage = toLowerCase (error_message error)
                  in str_includes errorMessage ''no libraries'' \<or>
                     str_includes errorMessage ''empty'')
              then Inr []
              else Inl (LibraryError
                          (''Failed to list installed libraries''
                             @ (if truthyStr projectDir
                                then '' for project at '' @ the projectDir else [])
                             @ '': '' @ error_toString error)
                          (Some [(''projectDir'', ctxOfStr projectDir)]))))"

text \<open>\<open>listDevices\<close>; the schema \<open>DevicesArraySchema\<close> is the parameter \<open>schema\<close>.\<close>

definition listDevices ::
    "spawner \<Rightarrow> (string \<Rightarrow> js_error + 'j) \<Rightarrow> ('j \<Rightarrow> js_error + 'a list) \<Rightarrow>
     spawn_call list \<times> (js_error + 'a list)" where
  "listDevices spawn JSON_parse schema =
     (let (calls, r) =
            executeWithJsonOutput spawn JSON_parse schema ''device'' [''list'']
              \<lparr>opt_cwd = None, opt_timeout = Some 10000\<rparr>
      in (calls,
          case r of
            Inr result \<Rightarrow> Inr result
          | Inl error \<Rightarrow>
              if isPlatformIOError error \<and>
                 (let errorMessage = toLowerCase (error_message error)
                  in str_includes errorMessage ''no devices'' \<or>
                     str_includes errorMessage ''empty'')
              then Inr []
              else Inl (PlatformIOError
                          (''Failed to list devices: '' @ error_toString error)
                          (Some ''LIST_DEVICES_FAILED'') None)))"


section \<open>Vocabulary of the statements\<close>

text \<open>
  The outcome of the invocation as a whole: that of \<open>pio\<close>, or that of \<open>platformio\<close> when
  \<open>pio\<close> was reported as not found.
\<close>

definition invocation :: "spawner \<Rightarrow> string list \<Rightarrow> spawn_options \<Rightarrow> exec_error + exec_output" where
  "invocation spawn args so =
     (case spawn ''pio'' args so of
        Inr result \<Rightarrow> Inr result
      | Inl firstError \<Rightarrow>
          if isPlatformIONotFoundError (ExecError firstError)
          then spawn ''platformio'' args so
          else Inl firstError)"

text \<open>The arguments that \<open>executeWithJsonOutput\<close> passes on.\<close>

definition withJsonOutput :: "string list \<Rightarrow> string list" where
  "withJsonOutput args = (if ''--json-output'' \<in> set args then args else args @ [''--json-output''])"

subsection \<open>Stubbed processes\<close>

text \<open>
  Errors as \<open>execFile\<close> produces them. A binary that is absent gives \<open>spawn <name> ENOENT\<close>.
  A process that exits with a code other than 0 gives \<open>Command failed: <command line>\<close>,
  a line feed and the standard error output, with the exit code in \<open>code\<close>. A process
  killed at its timeout gives the same message with \<open>killed\<close> set, the signal
  \<open>SIGTERM\<close> and no code.
\<close>

definition enoentError :: "string \<Rightarrow> exec_error" where
  "enoentError name =
     \<lparr>err_name = ''Error'', err_message = ''spawn '' @ name @ '' ENOENT'',
      err_killed = False, err_signal = None, err_code = Some (CodeStr ''ENOENT''),
      err_stdout = Some [], err_stderr = Some []\<rparr>"

definition exitError :: "string \<Rightarrow> int \<Rightarrow> string \<Rightarrow> string \<Rightarrow> exec_error" where
  "exitError cmd n out err =
     \<lparr>err_name = ''Error'', err_message = ''Command failed: '' @ cmd @ [CHR 0x0A] @ err,
      err_killed = False, err_signal = None, err_code = Some (CodeNum n),
      err_stdout = Some out, err_stderr = Some err\<rparr>"

definition killedError :: "string \<Rightarrow> string \<Rightarrow> string \<Rightarrow> exec_error" where
  "killedError cmd out err =
     \<lparr>err_name = ''Error'', err_message = ''Command failed: '' @ cmd @ [CHR 0x0A] @ err,
      err_killed = True, err_signal = Some ''SIGTERM'', err_code = None,
      err_stdout = Some out, err_stderr = Some err\<rparr>"

text \<open>Four endings of \<open>pio run\<close>: a compile error; a build whose shell does not find the
  compiler; a build that outlives its timeout; an upload that outlives its timeout after
  reporting that it does not find the port.\<close>

definition compileError :: exec_error where
  "compileError =
     exitError ''pio run'' 1 ''Compiling .pio/build/uno/src/main.cpp.o''
       ''src/main.cpp:3:1: error: expected declaration''"

definition toolchainMissing :: exec_error where
  "toolchainMissing =
     exitError ''pio run'' 1 ''Compiling .pio/build/uno/src/main.cpp.o''
       ''sh: 1: avr-g++: not found''"

definition buildHang :: exec_error where
  "buildHang = killedError ''pio run'' ''Compiling .pio/build/uno/src/main.cpp.o'' []"

definition uploadHang :: exec_error where
  "uploadHang =
     killedError ''pio run -t upload'' ''Uploading .pio/build/uno/firmware.hex''
       ''Error: upload port not found''"

text \<open>Neither binary is installed.\<close>

definition stubMissing :: spawner where
  "stubMissing name args so = Inl (enoentError name)"

text \<open>Only \<open>platformio\<close> is installed, and it ends as given.\<close>

definition stubAliasOnly :: "exec_error + exec_output \<Rightarrow> spawner" where
  "stubAliasOnly outcome name args so =
     (if name = ''pio'' then Inl (enoentError name) else outcome)"

text \<open>Both names are installed and end as given.\<close>

definition stubProcess :: "exec_error + exec_output \<Rightarrow> spawner" where
  "stubProcess outcome name args so = outcome"

text \<open>A process that exits with code 0 after writing \<open>body\<close> to its standard output.\<close>

definition stubBody :: "string \<Rightarrow> spawner" where
  "stubBody body = stubProcess (Inr \<lparr>out_stdout = Some body, out_stderr = Some []\<rparr>)"

subsection \<open>A stubbed parser and schema\<close>

datatype json =
    JNull
  | JBool bool
  | JNum int
  | JStr string
  | JArr "json list"
  | JObj "(string \<times> json) list"

text \<open>\<open>JSON.parse\<close> on the three bodies of the round-trip property of the specification;
  no other body is given to it.\<close>

definition stubJSONparse :: "string \<Rightarrow> js_error + json" where
  \<open>stubJSONparse s =
     (if s = ''{"id":"x"}'' then Inr (JObj [(''id'', JStr ''x'')])
      else if s = ''{}'' then Inr (JObj [])
      else Inl (SyntaxError ''Unexpected token o in JSON at position 1''))\<close>

text \<open>The schema \<open>z.object({ id: z.string() })\<close>.\<close>

definition idSchema :: "json \<Rightarrow> js_error + json" where
  "idSchema j =
     (case j of
        JObj members \<Rightarrow>
          (case map_of members ''id'' of
             Some (JStr v) \<Rightarrow> Inr (JObj [(''id'', JStr v)])
           | Some _ \<Rightarrow>
               Inl (ZodError [\<lparr>issue_path = [''id''], issue_message = ''Expected string''\<rparr>]
                      ''Expected string'')
           | None \<Rightarrow>
               Inl (ZodError [\<lparr>issue_path = [''id''], issue_message = ''Required''\<rparr>]
                      ''Required''))
      | _ \<Rightarrow>
          Inl (ZodError [\<lparr>issue_path = [], issue_message = ''Expected object''\<rparr>]
                 ''Expected object''))"

text \<open>The schema \<open>z.array(z.any())\<close>.\<close>

definition arraySchema :: "json \<Rightarrow> js_error + json list" where
  "arraySchema j =
     (case j of
        JArr items \<Rightarrow> Inr items
      | _ \<Rightarrow>
          Inl (ZodError [\<lparr>issue_path = [], issue_message = ''Expected array''\<rparr>]
                 ''Expected array''))"

section \<open>The matcher decides the language\<close>

lemma str_includes_sublist: "str_includes s sub = sublist sub s"
  by (induction s) (auto simp: sublist_Cons_right)

lemma mem_conc: "w \<in> conc A B \<longleftrightarrow> (\<exists>u v. w = u @ v \<and> u \<in> A \<and> v \<in> B)"
  by (auto simp: conc_def)

lemma nil_in_conc: "[] \<in> conc A B \<longleftrightarrow> [] \<in> A \<and> [] \<in> B"
  by (auto simp: conc_def)

lemma nullable_lang: "nullable r \<longleftrightarrow> [] \<in> lang r"
  by (induction r) (auto simp: nil_in_conc intro: star.star_nil)

lemma cons_in_conc:
  "c # w \<in> conc A B \<longleftrightarrow>
     (\<exists>u v. w = u @ v \<and> c # u \<in> A \<and> v \<in> B) \<or> ([] \<in> A \<and> c # w \<in> B)"
proof
  assume "c # w \<in> conc A B"
  then obtain u v where uv: "c # w = u @ v" "u \<in> A" "v \<in> B"
    by (auto simp: mem_conc)
  show "(\<exists>u v. w = u @ v \<and> c # u \<in> A \<and> v \<in> B) \<or> ([] \<in> A \<and> c # w \<in> B)"
  proof (cases u)
    case Nil
    with uv show ?thesis by simp
  next
    case (Cons a u')
    with uv have "w = u' @ v" "c # u' \<in> A" by auto
    with uv show ?thesis by blast
  qed
next
  assume "(\<exists>u v. w = u @ v \<and> c # u \<in> A \<and> v \<in> B) \<or> ([] \<in> A \<and> c # w \<in> B)"
  then show "c # w \<in> conc A B"
  proof
    assume "\<exists>u v. w = u @ v \<and> c # u \<in> A \<and> v \<in> B"
    then obtain u v where "w = u @ v" "c # u \<in> A" "v \<in> B" by blast
    then have "c # w = (c # u) @ v" by simp
    with \<open>c # u \<in> A\<close> \<open>v \<in> B\<close> show ?thesis unfolding mem_conc by blast
  next
    assume "[] \<in> A \<and> c # w \<in> B"
    then have "c # w = [] @ (c # w)" "[] \<in> A" "c # w \<in> B" by auto
    then show ?thesis unfolding mem_conc by blast
  qed
qed

lemma star_cons_split:
  "x \<in> star A \<Longrightarrow> x = c # w \<Longrightarrow> \<exists>u v. w = u @ v \<and> c # u \<in> A \<and> v \<in> star A"
proof (induction arbitrary: w rule: star.induct)
  case star_nil
  then show ?case by simp
next
  case (star_app u v)
  show ?case
  proof (cases u)
    case Nil
    with star_app show ?thesis by simp
  next
    case (Cons a u')
    with star_app.prems have "w = u' @ v" "a = c" by auto
    with Cons star_app.hyps show ?thesis by blast
  qed
qed

lemma cons_in_star:
  "c # w \<in> star A \<longleftrightarrow> (\<exists>u v. w = u @ v \<and> c # u \<in> A \<and> v \<in> star A)"
proof
  assume "c # w \<in> star A"
  then show "\<exists>u v. w = u @ v \<and> c # u \<in> A \<and> v \<in> star A"
    by (rule star_cons_split) simp
next
  assume "\<exists>u v. w = u @ v \<and> c # u \<in> A \<and> v \<in> star A"
  then obtain u v where "w = u @ v" "c # u \<in> A" "v \<in> star A" by blast
  then show "c # w \<in> star A"
    using star.star_app [of "c # u" A v] by simp
qed

lemma lang_deriv: "w \<in> lang (deriv c r) \<longleftrightarrow> c # w \<in> lang r"
proof (induction r arbitrary: w)
  case (Seq r1 r2)
  have "w \<in> lang (deriv c (Seq r1 r2)) \<longleftrightarrow>
          (\<exists>u v. w = u @ v \<and> u \<in> lang (deriv c r1) \<and> v \<in> lang r2) \<or>
          (nullable r1 \<and> w \<in> lang (deriv c r2))"
    by (auto simp: mem_conc)
  also have "\<dots> \<longleftrightarrow> c # w \<in> conc (lang r1) (lang r2)"
    unfolding cons_in_conc by (simp add: Seq.IH nullable_lang)
  finally show ?case by simp
next
  case (Star r)
  have "w \<in> lang (deriv c (Star r)) \<longleftrightarrow>
          (\<exists>u v. w = u @ v \<and> u \<in> lang (deriv c r) \<and> v \<in> star (lang r))"
    by (simp add: mem_conc)
  also have "\<dots> \<longleftrightarrow> c # w \<in> star (lang r)"
    unfolding cons_in_star by (simp add: Star.IH)
  finally show ?case by simp
qed auto

lemma matches_lang: "matches r s \<longleftrightarrow> s \<in> lang r"
  by (induction s arbitrary: r) (simp_all add: nullable_lang lang_deriv)

lemma star_Cls: "w \<in> star {[c] | c. P c} \<longleftrightarrow> (\<forall>c\<in>set w. P c)"
proof
  assume "w \<in> star {[c] | c. P c}"
  then show "\<forall>c\<in>set w. P c"
    by (induction rule: star.induct) auto
next
  assume "\<forall>c\<in>set w. P c"
  then show "w \<in> star {[c] | c. P c}"
  proof (induction w)
    case Nil
    show ?case by (rule star.star_nil)
  next
    case (Cons a w)
    then have "[a] \<in> {[c] | c. P c}" "w \<in> star {[c] | c. P c}" by auto
    then have "[a] @ w \<in> star {[c] | c. P c}" by (rule star.star_app)
    then show ?case by simp
  qed
qed

lemma lang_Star_Cls: "w \<in> lang (Star (Cls P)) \<longleftrightarrow> (\<forall>c\<in>set w. P c)"
  by (simp add: star_Cls)

lemma lang_Plus_Cls: "w \<in> lang (Plus (Cls P)) \<longleftrightarrow> w \<noteq> [] \<and> (\<forall>c\<in>set w. P c)"
proof (cases w)
  case Nil
  then show ?thesis by (simp add: Plus_def nil_in_conc)
next
  case (Cons a w')
  have "a # w' \<in> lang (Plus (Cls P)) \<longleftrightarrow> P a \<and> w' \<in> star {[c] | c. P c}"
    by (auto simp: Plus_def cons_in_conc)
  with Cons show ?thesis by (simp add: star_Cls)
qed

lemma lang_Opt: "w \<in> lang (Opt r) \<longleftrightarrow> w = [] \<or> w \<in> lang r"
  by (auto simp: Opt_def)

lemma lang_Chr: "w \<in> lang (Chr a) \<longleftrightarrow> w = [a]"
  by (auto simp: Chr_def)

text \<open>
  Claim C7. For every string, \<open>validateBoardId\<close> answers true exactly when the length is
  between 2 and 50 and every character is an ASCII letter, a digit, an underscore, a
  hyphen or a dot. The function is total: every other string, the empty one included, is
  answered with false.
\<close>
theorem validateBoardId_iff:
  "validateBoardId s \<longleftrightarrow>
     2 \<le> length s \<and> length s \<le> 50 \<and>
     (\<forall>c\<in>set s. isLower c \<or> isUpper c \<or> isDigit c \<or> c = CHR ''_'' \<or> c = CHR ''-'' \<or> c = CHR ''.'')"
proof -
  have "matches boardIdPattern s \<longleftrightarrow> s \<noteq> [] \<and> (\<forall>c\<in>set s. boardIdChar c)"
    by (simp add: matches_lang boardIdPattern_def lang_Plus_Cls)
  then show ?thesis
    by (auto simp: validateBoardId_def boardIdChar_def)
qed

lemma lang_dotnum:
  "w \<in> lang (Seq (Chr CHR ''.'') (Plus (Cls isDigit))) \<longleftrightarrow> (\<exists>d. w = ''.'' @ d \<and> numeric d)"
  unfolding lang.simps(5) mem_conc lang_Chr lang_Plus_Cls numeric_def by auto

lemma lang_UpTo2:
  "w \<in> lang (UpTo 2 r) \<longleftrightarrow>
     w = [] \<or> w \<in> lang r \<or> (\<exists>u v. w = u @ v \<and> u \<in> lang r \<and> v \<in> lang r)"
  by (auto simp: numeral_2_eq_2 lang_Opt mem_conc)

lemma lang_components:
  "w \<in> conc (lang (Plus (Cls isDigit))) (lang (UpTo 2 (Seq (Chr CHR ''.'') (Plus (Cls isDigit)))))
     \<longleftrightarrow> (\<exists>comps. w = join ''.'' comps \<and> 1 \<le> length comps \<and> length comps \<le> 3 \<and>
            (\<forall>d\<in>set comps. numeric d))"
  (is "?L \<longleftrightarrow> ?R")
proof
  assume ?L
  then obtain d1 m where w: "w = d1 @ m" and d1: "numeric d1"
    and m: "m \<in> lang (UpTo 2 (Seq (Chr CHR ''.'') (Plus (Cls isDigit))))"
    unfolding mem_conc lang_Plus_Cls numeric_def by blast
  from m consider "m = []" | d2 where "m = ''.'' @ d2" "numeric d2"
    | d2 d3 where "m = (''.'' @ d2) @ (''.'' @ d3)" "numeric d2" "numeric d3"
    unfolding lang_UpTo2 lang_dotnum by blast
  then show ?R
  proof cases
    case 1
    with w d1 have "w = join ''.'' [d1] \<and> 1 \<le> length [d1] \<and> length [d1] \<le> 3 \<and> (\<forall>d\<in>set [d1]. numeric d)"
      by simp
    then show ?thesis by blast
  next
    case 2
    with w d1 have "w = join ''.'' [d1, d2] \<and> 1 \<le> length [d1, d2] \<and> length [d1, d2] \<le> 3
        \<and> (\<forall>d\<in>set [d1, d2]. numeric d)"
      by simp
    then show ?thesis by blast
  next
    case 3
    with w d1 have "w = join ''.'' [d1, d2, d3] \<and> 1 \<le> length [d1, d2, d3] \<and> length [d1, d2, d3] \<le> 3
        \<and> (\<forall>d\<in>set [d1, d2, d3]. numeric d)"
      by simp
    then show ?thesis by blast
  qed
next
  assume ?R
  then obtain comps where c: "w = join ''.'' comps" "1 \<le> length comps" "length comps \<le> 3"
    "\<forall>d\<in>set comps. numeric d" by blast
  then consider d1 where "comps = [d1]" | d1 d2 where "comps = [d1, d2]"
    | d1 d2 d3 where "comps = [d1, d2, d3]"
  proof -
    assume a1: "\<And>d1. comps = [d1] \<Longrightarrow> thesis"
      and a2: "\<And>d1 d2. comps = [d1, d2] \<Longrightarrow> thesis"
      and a3: "\<And>d1 d2 d3. comps = [d1, d2, d3] \<Longrightarrow> thesis"
    from c(2,3) have "length comps = Suc 0 \<or> length comps = Suc (Suc 0)
        \<or> length comps = Suc (Suc (Suc 0))" by arith
    then show thesis
      using a1 a2 a3 by (auto simp: length_Suc_conv)
  qed
  then show ?L
  proof cases
    case 1
    with c have "w = d1 @ []" "numeric d1" by auto
    then show ?thesis
      unfolding mem_conc lang_Plus_Cls numeric_def lang_UpTo2 by blast
  next
    case 2
    with c have "w = d1 @ (''.'' @ d2)" "numeric d1" "numeric d2" by auto
    then show ?thesis
      unfolding mem_conc lang_Plus_Cls lang_UpTo2 lang_dotnum numeric_def by blast
  next
    case 3
    with c have "w = d1 @ ((''.'' @ d2) @ (''.'' @ d3))" "numeric d1" "numeric d2" "numeric d3" by auto
    then show ?thesis
      unfolding mem_conc lang_Plus_Cls lang_UpTo2 lang_dotnum numeric_def by blast
  qed
qed

lemma conc_assoc: "conc A (conc B C) = conc (conc A B) C"
proof (rule set_eqI)
  fix w
  show "w \<in> conc A (conc B C) \<longleftrightarrow> w \<in> conc (conc A B) C"
  proof
    assume "w \<in> conc A (conc B C)"
    then obtain a b c where "w = a @ b @ c" "a \<in> A" "b \<in> B" "c \<in> C"
      unfolding mem_conc by blast
    then have "w = (a @ b) @ c" "a @ b \<in> conc A B" "c \<in> C"
      unfolding mem_conc by auto
    then show "w \<in> conc (conc A B) C" unfolding mem_conc [of w] by blast
  next
    assume "w \<in> conc (conc A B) C"
    then obtain a b c where "w = (a @ b) @ c" "a \<in> A" "b \<in> B" "c \<in> C"
      unfolding mem_conc by blast
    then have "w = a @ (b @ c)" "a \<in> A" "b @ c \<in> conc B C"
      unfolding mem_conc by auto
    then show "w \<in> conc A (conc B C)" unfolding mem_conc [of w] by blast
  qed
qed

lemma lang_Opt_Star_Cls: "w \<in> lang (Opt (Star (Cls P))) \<longleftrightarrow> (\<forall>c\<in>set w. P c)"
  unfolding lang_Opt lang_Star_Cls by auto

lemma lang_versionPattern:
  "s \<in> lang versionPattern \<longleftrightarrow>
     (\<exists>p comps suf. s = p @ join ''.'' comps @ suf \<and> (\<forall>c\<in>set p. rangeChar c) \<and>
        1 \<le> length comps \<and> length comps \<le> 3 \<and> (\<forall>d\<in>set comps. numeric d) \<and>
        (\<forall>c\<in>set suf. suffixChar c))"
  (is "?L \<longleftrightarrow> ?R")
proof -
  let ?D = "lang (Plus (Cls isDigit))"
  let ?U = "lang (UpTo 2 (Seq (Chr CHR ''.'') (Plus (Cls isDigit))))"
  let ?S = "lang (Opt (Star (Cls suffixChar)))"
  have eq: "lang versionPattern = conc (lang (Star (Cls rangeChar))) (conc (conc ?D ?U) ?S)"
    unfolding versionPattern_def lang.simps(5) conc_assoc ..
  show ?thesis
  proof
    assume ?L
    then obtain p r where s: "s = p @ r" and p: "p \<in> lang (Star (Cls rangeChar))"
      and r: "r \<in> conc (conc ?D ?U) ?S"
      unfolding eq mem_conc [of s] by blast
    from r obtain m suf where r': "r = m @ suf" and m: "m \<in> conc ?D ?U" and suf: "suf \<in> ?S"
      unfolding mem_conc [of r] by blast
    from m obtain comps where c: "m = join ''.'' comps" "1 \<le> length comps" "length comps \<le> 3"
      "\<forall>d\<in>set comps. numeric d"
      unfolding lang_components by blast
    from s r' c(1) have "s = p @ join ''.'' comps @ suf" by simp
    moreover from p have "\<forall>c\<in>set p. rangeChar c" unfolding lang_Star_Cls .
    moreover from suf have "\<forall>c\<in>set suf. suffixChar c" unfolding lang_Opt_Star_Cls .
    ultimately show ?R using c(2-4) by blast
  next
    assume ?R
    then obtain p comps suf where s: "s = p @ join ''.'' comps @ suf"
      and p: "\<forall>c\<in>set p. rangeChar c"
      and c: "1 \<le> length comps" "length comps \<le> 3" "\<forall>d\<in>set comps. numeric d"
      and suf: "\<forall>c\<in>set suf. suffixChar c"
      by blast
    from c have "join ''.'' comps \<in> conc ?D ?U" unfolding lang_components by blast
    moreover from suf have "suf \<in> ?S" unfolding lang_Opt_Star_Cls .
    ultimately have "join ''.'' comps @ suf \<in> conc (conc ?D ?U) ?S"
      unfolding mem_conc [of "join ''.'' comps @ suf"] by blast
    moreover from p have "p \<in> lang (Star (Cls rangeChar))" unfolding lang_Star_Cls .
    ultimately show ?L
      unfolding eq mem_conc [of s] using s by blast
  qed
qed

lemma star_all:
  "w \<in> star A \<Longrightarrow> (\<forall>u\<in>A. \<forall>c\<in>set u. P c) \<Longrightarrow> \<forall>c\<in>set w. P c"
  by (induction rule: star.induct) auto

lemma within_lang: "within P r \<Longrightarrow> w \<in> lang r \<Longrightarrow> \<forall>c\<in>set w. P c"
proof (induction r arbitrary: w)
  case (Seq r1 r2)
  then show ?case by (fastforce simp: mem_conc)
next
  case (Star r)
  from Star.prems(1) Star.IH have "\<forall>u\<in>lang r. \<forall>c\<in>set u. P c" by simp
  with Star.prems(2) show ?case by (auto dest: star_all)
qed auto

lemma validateVersion_matches:
  "validateVersion s \<longleftrightarrow> matches versionPattern s \<and> length s \<le> 50"
proof -
  have "\<not> matches versionPattern []"
    by (simp add: versionPattern_def Plus_def)
  then show ?thesis
    by (cases s) (simp_all add: validateVersion_def)
qed

lemma join_head:
  "comps = d1 # cs \<Longrightarrow> \<exists>t. join sep comps = d1 @ t"
  by (cases cs) auto

lemma join_numeric_chars:
  "\<forall>d\<in>set comps. numeric d \<Longrightarrow> \<forall>c\<in>set (join ''.'' comps). isDigit c \<or> c = CHR ''.''"
  by (induction "''.''" comps rule: join.induct) (auto simp: numeric_def)

lemma prefix_within: "within rangeChar (Opt (AltList (map Lit codePrefixes)))"
  by (simp add: codePrefixes_def Opt_def Chr_def rangeChar_def)

lemma suffix_within:
  "within suffixChar (Seq (Opt (Seq (Chr CHR ''-'') identifiers)) (Opt (Seq (Chr CHR ''+'') identifiers)))"
  by (auto simp: Opt_def Chr_def identifiers_def Plus_def suffixChar_def identChar_def)

lemma versionShape_included:
  assumes "s \<in> lang (versionShape codePrefixes)"
  shows "s \<in> lang versionPattern"
proof -
  let ?A = "lang (Opt (AltList (map Lit codePrefixes)))"
  let ?D = "lang (Plus (Cls isDigit))"
  let ?U = "lang (UpTo 2 (Seq (Chr CHR ''.'') (Plus (Cls isDigit))))"
  let ?X = "Seq (Opt (Seq (Chr CHR ''-'') identifiers)) (Opt (Seq (Chr CHR ''+'') identifiers))"
  have eq: "lang (versionShape codePrefixes) = conc ?A (conc (conc ?D ?U) (lang ?X))"
    unfolding versionShape_def lang.simps(5) conc_assoc ..
  from assms obtain p r where s: "s = p @ r" and p: "p \<in> ?A"
    and r: "r \<in> conc (conc ?D ?U) (lang ?X)"
    unfolding eq mem_conc [of s] by blast
  from r obtain m suf where r': "r = m @ suf" and m: "m \<in> conc ?D ?U" and suf: "suf \<in> lang ?X"
    unfolding mem_conc [of r] by blast
  from m obtain comps where c: "m = join ''.'' comps" "1 \<le> length comps" "length comps \<le> 3"
    "\<forall>d\<in>set comps. numeric d"
    unfolding lang_components by blast
  have "\<forall>c\<in>set p. rangeChar c" using prefix_within p by (rule within_lang)
  moreover have "\<forall>c\<in>set suf. suffixChar c" using suffix_within suf by (rule within_lang)
  moreover from s r' c(1) have "s = p @ join ''.'' comps @ suf" by simp
  ultimately show ?thesis
    unfolding lang_versionPattern using c(2-4) by blast
qed

text \<open>
  Claim C8, as amended. Every string of at most 50 characters that consists of an optional
  single range prefix out of \<open>^ ~ > < >= <= =\<close>, then one to three dot-separated numeric
  components, then an optional pre-release or build suffix, is accepted by
  \<open>validateVersion\<close>. Every string that \<open>validateVersion\<close> accepts has at most 50
  characters and consists of range characters out of \<open>^ ~ > < =\<close>, then a digit, then
  letters, digits, hyphens, plus signs and dots.
\<close>
theorem validateVersion_shape:
  "(length s \<le> 50 \<and> matches (versionShape codePrefixes) s \<longrightarrow> validateVersion s) \<and>
   (validateVersion s \<longrightarrow>
      length s \<le> 50 \<and>
      (\<exists>p d rest. s = p @ d # rest \<and>
         (\<forall>c\<in>set p. c = CHR ''^'' \<or> c = CHR ''~'' \<or> c = CHR ''>'' \<or> c = CHR ''<'' \<or> c = CHR ''='') \<and>
         isDigit d \<and>
         (\<forall>c\<in>set rest. isLower c \<or> isUpper c \<or> isDigit c \<or> c = CHR ''-'' \<or> c = CHR ''+''
            \<or> c = CHR ''.'')))"
proof (intro conjI impI)
  assume "length s \<le> 50 \<and> matches (versionShape codePrefixes) s"
  then show "validateVersion s"
    unfolding validateVersion_matches matches_lang by (simp add: versionShape_included)
next
  assume v: "validateVersion s"
  then show "length s \<le> 50" by (simp add: validateVersion_matches)
  from v have "s \<in> lang versionPattern" by (simp add: validateVersion_matches matches_lang)
  then obtain p comps suf where s: "s = p @ join ''.'' comps @ suf"
    and p: "\<forall>c\<in>set p. rangeChar c"
    and c: "1 \<le> length comps" "\<forall>d\<in>set comps. numeric d"
    and suf: "\<forall>c\<in>set suf. suffixChar c"
    unfolding lang_versionPattern by blast
  from c(1) obtain d1 cs where comps: "comps = d1 # cs" by (cases comps) auto
  with c(2) obtain d ds where d1: "d1 = d # ds" and d: "isDigit d"
    by (cases d1) (auto simp: numeric_def)
  from join_head [OF comps] obtain t where j: "join ''.'' comps = d1 @ t" by blast
  from join_numeric_chars [OF c(2)] have jc: "\<forall>c\<in>set (join ''.'' comps). suffixChar c"
    by (auto simp: suffixChar_def)
  have "s = p @ d # (ds @ t @ suf)" using s j d1 by simp
  moreover have "\<forall>c\<in>set (ds @ t @ suf). suffixChar c"
    using jc suf unfolding j d1 by auto
  ultimately show "\<exists>p d rest. s = p @ d # rest \<and>
         (\<forall>c\<in>set p. c = CHR ''^'' \<or> c = CHR ''~'' \<or> c = CHR ''>'' \<or> c = CHR ''<'' \<or> c = CHR ''='') \<and>
         isDigit d \<and>
         (\<forall>c\<in>set rest. isLower c \<or> isUpper c \<or> isDigit c \<or> c = CHR ''-'' \<or> c = CHR ''+''
            \<or> c = CHR ''.'')"
    using p d unfolding rangeChar_def suffixChar_def by blast
qed

text \<open>A range with pre-release and build parts and a version with the prefix \<open>=\<close> are
  accepted; a run of 51 digits is rejected.\<close>
theorem validateVersion_shape_witness:
  "validateVersion ''>=1.2.3-beta.1+build.5'' \<and> validateVersion ''=1.0.0'' \<and>
   \<not> validateVersion (replicate 51 CHR ''1'')"
proof -
  have m: "matches (versionShape codePrefixes) ''>=1.2.3-beta.1+build.5''"
    "matches (versionShape codePrefixes) ''=1.0.0''"
    by code_simp+
  from validateVersion_shape [of "''>=1.2.3-beta.1+build.5''"] m(1)
  have 1: "validateVersion ''>=1.2.3-beta.1+build.5''" by simp
  from validateVersion_shape [of "''=1.0.0''"] m(2)
  have 2: "validateVersion ''=1.0.0''" by simp
  from validateVersion_shape [of "replicate 51 CHR ''1''"]
  have 3: "\<not> validateVersion (replicate 51 CHR ''1'')" by auto
  from 1 2 3 show ?thesis by blast
qed

text \<open>Against the shape that the specification words, the code accepts the prefix \<open>=\<close>,
  a repeated prefix and a fourth numeric component.\<close>
theorem validateVersion_spec_counterexample:
  "validateVersion ''=1.0.0'' \<and> \<not> validateVersionSpec ''=1.0.0'' \<and>
   validateVersion ''^^1.0'' \<and> \<not> validateVersionSpec ''^^1.0'' \<and>
   validateVersion ''1.2.3.4'' \<and> \<not> validateVersionSpec ''1.2.3.4''"
  by code_simp

text \<open>A board identifier that is accepted, and three that are rejected: too short, a
  character outside the class, empty.\<close>
theorem validateBoardId_iff_witness:
  "validateBoardId ''esp32dev'' \<and> \<not> validateBoardId ''a'' \<and> \<not> validateBoardId ''uno;rm''
     \<and> \<not> validateBoardId ''''"
  using validateBoardId_iff [of "''esp32dev''"] validateBoardId_iff [of "''a''"]
    validateBoardId_iff [of "''uno;rm''"] validateBoardId_iff [of "''''"]
  by (simp add: isDigit_def isLower_def isUpper_def)

section \<open>The executor\<close>

lemma notInstalled_notFound: "isPlatformIONotFoundError PlatformIONotInstalledError"
  by code_simp

lemma notInstalled_flags:
  "error_killed PlatformIONotInstalledError = False"
  "isNotInstalledError PlatformIONotInstalledError"
  by (simp_all add: PlatformIONotInstalledError_def)

lemma catch_notInstalled:
  "execPioCommand_catch args t PlatformIONotInstalledError = Inl PlatformIONotInstalledError"
  by (simp add: execPioCommand_catch_def notInstalled_notFound notInstalled_flags)

lemma execPioCommand_snd:
  "snd (execPioCommand spawn args opts) =
     (case invocation spawn args (spawnOptions opts) of
        Inr result \<Rightarrow>
          Inr \<lparr>stdout = orEmpty (out_stdout result), stderr = orEmpty (out_stderr result),
               exitCode = CodeNum 0\<rparr>
      | Inl e \<Rightarrow>
          (case spawn ''pio'' args (spawnOptions opts) of
             Inl e1 \<Rightarrow>
               if isPlatformIONotFoundError (ExecError e1) \<and> isPlatformIONotFoundError (ExecError e)
               then Inl PlatformIONotInstalledError
               else execPioCommand_catch args (so_timeout (spawnOptions opts)) (ExecError e)
           | Inr _ \<Rightarrow> execPioCommand_catch args (so_timeout (spawnOptions opts)) (ExecError e)))"
  by (simp add: execPioCommand_def execPioCommand_try_def invocation_def Let_def catch_notInstalled
      split: sum.splits)

lemma execPioCommand_fst:
  "fst (execPioCommand spawn args opts) =
     (case spawn ''pio'' args (spawnOptions opts) of
        Inr result \<Rightarrow> [(''pio'', args, spawnOptions opts)]
      | Inl e1 \<Rightarrow>
          if isPlatformIONotFoundError (ExecError e1)
          then [(''pio'', args, spawnOptions opts), (''platformio'', args, spawnOptions opts)]
          else [(''pio'', args, spawnOptions opts)])"
  by (simp add: execPioCommand_def execPioCommand_try_def Let_def split: sum.splits)

lemma execPioCommand_failed:
  assumes "invocation spawn args (spawnOptions opts) = Inl e"
    and "\<not> isPlatformIONotFoundError (ExecError e)"
  shows "snd (execPioCommand spawn args opts) =
           execPioCommand_catch args (so_timeout (spawnOptions opts)) (ExecError e)"
  using assms by (simp add: execPioCommand_snd split: sum.splits)

lemma execPioCommand_succeeded:
  assumes "invocation spawn args (spawnOptions opts) = Inr out"
  shows "snd (execPioCommand spawn args opts) =
           Inr \<lparr>stdout = orEmpty (out_stdout out), stderr = orEmpty (out_stderr out),
                exitCode = CodeNum 0\<rparr>"
  using assms by (simp add: execPioCommand_snd)

text \<open>
  Claim C2. When \<open>pio\<close> fails with an error that \<open>isPlatformIONotFoundError\<close> accepts
  (as the \<open>ENOENT\<close> error of the operating system is), \<open>platformio\<close> is run next, with the
  same arguments and options. When it fails in the same way the outcome is
  \<open>PlatformIONotInstalledError\<close>, neither a result nor another error; when it exits with
  code 0 its output is the result.
\<close>
theorem execPioCommand_not_installed:
  assumes "spawn ''pio'' args (spawnOptions opts) = Inl e1"
    and "isPlatformIONotFoundError (ExecError e1)"
  shows "fst (execPioCommand spawn args opts) =
           [(''pio'', args, spawnOptions opts), (''platformio'', args, spawnOptions opts)] \<and>
         (\<forall>e2. spawn ''platformio'' args (spawnOptions opts) = Inl e2 \<and>
               isPlatformIONotFoundError (ExecError e2) \<longrightarrow>
               snd (execPioCommand spawn args opts) = Inl PlatformIONotInstalledError) \<and>
         (\<forall>out. spawn ''platformio'' args (spawnOptions opts) = Inr out \<longrightarrow>
               snd (execPioCommand spawn args opts) =
                 Inr \<lparr>stdout = orEmpty (out_stdout out), stderr = orEmpty (out_stderr out),
                      exitCode = CodeNum 0\<rparr>)"
  using assms by (simp add: execPioCommand_fst execPioCommand_snd invocation_def)

text \<open>
  Claim C6. When \<open>execute\<close> returns a result whose exit code is not 0,
  \<open>executeWithJsonOutput\<close> raises the error with code \<open>COMMAND_FAILED\<close> whose context
  holds the standard error and the exit code. The outcome is the same for every parser and
  every schema: the output is not parsed.
\<close>
theorem executeWithJsonOutput_command_failed:
  assumes "snd (execute spawn command (withJsonOutput args) opts) = Inr result"
    and "exitCode result \<noteq> CodeNum 0"
  shows "snd (executeWithJsonOutput spawn JSON_parse schema command args opts) =
           Inl (PlatformIOError
                  (''PlatformIO command failed: '' @ command @ '' '' @ join '' '' args)
                  (Some ''COMMAND_FAILED'')
                  (Some [(''stderr'', CtxStr (stderr result)),
                         (''exitCode'', CtxCode (exitCode result))]))"
  using assms
  by (simp add: executeWithJsonOutput_def withJsonOutput_def Let_def split_beta)

lemma executeWithJsonOutput_zero_exit:
  assumes "invocation spawn (command # withJsonOutput args) (spawnOptions opts) = Inr out"
  shows "snd (executeWithJsonOutput spawn JSON_parse schema command args opts) =
           parsePioJsonOutput JSON_parse schema (orEmpty (out_stdout out))"
proof -
  have "snd (execute spawn command (withJsonOutput args) opts) =
          Inr \<lparr>stdout = orEmpty (out_stdout out), stderr = orEmpty (out_stderr out),
               exitCode = CodeNum 0\<rparr>"
    unfolding execute_def using assms by (rule execPioCommand_succeeded)
  then show ?thesis
    by (simp add: executeWithJsonOutput_def withJsonOutput_def Let_def split_beta)
qed

text \<open>
  Claim C3. After an invocation that exits with code 0, \<open>executeWithJsonOutput\<close> splits
  on the standard output: empty after trimming, it raises the error "Empty output"; not
  empty and rejected by \<open>JSON.parse\<close> with a syntax error, it raises the error with code
  \<open>INVALID_JSON\<close>; parsed and rejected by the schema, it raises the error with code
  \<open>PARSE_ERROR\<close> whose context holds the issues of the schema; parsed and accepted, it
  returns the value of the schema.
\<close>
theorem executeWithJsonOutput_cases:
  assumes "invocation spawn (command # withJsonOutput args) (spawnOptions opts) = Inr out"
  shows "(trim (orEmpty (out_stdout out)) = [] \<longrightarrow>
            snd (executeWithJsonOutput spawn JSON_parse schema command args opts) =
              Inl (PlatformIOError ''Empty output from PlatformIO command'' None None)) \<and>
         (\<forall>m. trim (orEmpty (out_stdout out)) \<noteq> [] \<and>
              JSON_parse (orEmpty (out_stdout out)) = Inl (SyntaxError m) \<longrightarrow>
            snd (executeWithJsonOutput spawn JSON_parse schema command args opts) =
              Inl (PlatformIOError (''Invalid JSON output from PlatformIO: '' @ m)
                     (Some ''INVALID_JSON'')
                     (Some [(''output'', CtxStr (substring0 500 (orEmpty (out_stdout out))))]))) \<and>
         (\<forall>parsed issues m. trim (orEmpty (out_stdout out)) \<noteq> [] \<and>
              JSON_parse (orEmpty (out_stdout out)) = Inr parsed \<and>
              schema parsed = Inl (ZodError issues m) \<longrightarrow>
            snd (executeWithJsonOutput spawn JSON_parse schema command args opts) =
              Inl (PlatformIOError (''Failed to parse PlatformIO output: '' @ m)
                     (Some ''PARSE_ERROR'')
                     (Some [(''zodError'', CtxIssues issues),
                            (''output'', CtxStr (substring0 500 (orEmpty (out_stdout out))))]))) \<and>
         (\<forall>parsed v. trim (orEmpty (out_stdout out)) \<noteq> [] \<and>
              JSON_parse (orEmpty (out_stdout out)) = Inr parsed \<and> schema parsed = Inr v \<longrightarrow>
            snd (executeWithJsonOutput spawn JSON_parse schema command args opts) = Inr v)"
proof -
  have nonempty: "trim s \<noteq> [] \<Longrightarrow> s \<noteq> []" for s
    by (auto simp: trim_def)
  show ?thesis
    unfolding executeWithJsonOutput_zero_exit [OF assms]
    by (auto simp: parsePioJsonOutput_def dest: nonempty)
qed

lemma catch_Inr_exitCode:
  "execPioCommand_catch args t error = Inr r \<Longrightarrow> exitCode r \<noteq> CodeNum 0"
  by (cases "error_code error" rule: truthyCode.cases)
     (auto simp: execPioCommand_catch_def split: if_splits)

lemma timeoutError_class: "\<not> isNotInstalledError (CommandTimeoutError c t)"
  by (simp add: CommandTimeoutError_def)

lemma catch_Inl_cases:
  "execPioCommand_catch args t (ExecError e) = Inl x \<Longrightarrow>
     x = PlatformIONotInstalledError \<or> \<not> isNotInstalledError x"
  by (auto simp: execPioCommand_catch_def timeoutError_class split: if_splits)

lemma execPioCommand_Inl_cases:
  "snd (execPioCommand spawn args opts) = Inl x \<Longrightarrow>
     x = PlatformIONotInstalledError \<or> \<not> isNotInstalledError x"
  by (auto simp: execPioCommand_snd split: sum.splits if_splits dest: catch_Inl_cases)

lemma execPioCommand_Inr_zero:
  "snd (execPioCommand spawn args opts) = Inr r \<Longrightarrow> exitCode r = CodeNum 0 \<Longrightarrow>
     \<exists>out. invocation spawn args (spawnOptions opts) = Inr out \<and>
           stdout r = orEmpty (out_stdout out)"
  by (auto simp: execPioCommand_snd split: sum.splits if_splits dest: catch_Inr_exitCode)

lemma checkInstallation_snd:
  "snd (checkInstallation spawn) =
     (case snd (execPioCommand spawn [''--version''] \<lparr>opt_cwd = None, opt_timeout = Some 5000\<rparr>) of
        Inr result \<Rightarrow>
          Inr (exitCode result = CodeNum 0 \<and> str_includes (stdout result) ''PlatformIO'')
      | Inl error \<Rightarrow> if isNotInstalledError error then Inr False else Inl error)"
  by (simp add: checkInstallation_def checkPlatformIOInstalled_def split_beta)

text \<open>
  Claim C10. \<open>checkInstallation\<close> never raises the tool-not-installed error. It returns
  false when neither binary is found. It returns true exactly when the invocation of
  \<open>--version\<close> exits with code 0 and its standard output contains \<open>PlatformIO\<close>; an exit
  with code 0 without that word gives false.
\<close>
theorem checkInstallation_result:
  "(\<forall>e. snd (checkInstallation spawn) = Inl e \<longrightarrow> \<not> isNotInstalledError e) \<and>
   (\<forall>e1 e2. spawn ''pio'' [''--version''] (spawnOptions \<lparr>opt_cwd = None, opt_timeout = Some 5000\<rparr>) = Inl e1 \<and>
        isPlatformIONotFoundError (ExecError e1) \<and>
        spawn ''platformio'' [''--version''] (spawnOptions \<lparr>opt_cwd = None, opt_timeout = Some 5000\<rparr>) = Inl e2 \<and>
        isPlatformIONotFoundError (ExecError e2) \<longrightarrow>
        snd (checkInstallation spawn) = Inr False) \<and>
   (snd (checkInstallation spawn) = Inr True \<longleftrightarrow>
      (\<exists>out. invocation spawn [''--version''] (spawnOptions \<lparr>opt_cwd = None, opt_timeout = Some 5000\<rparr>) = Inr out \<and>
            str_includes (orEmpty (out_stdout out)) ''PlatformIO'')) \<and>
   (\<forall>out. invocation spawn [''--version''] (spawnOptions \<lparr>opt_cwd = None, opt_timeout = Some 5000\<rparr>) = Inr out \<and>
        \<not> str_includes (orEmpty (out_stdout out)) ''PlatformIO'' \<longrightarrow>
        snd (checkInstallation spawn) = Inr False)"
proof -
  let ?opts = "\<lparr>opt_cwd = None, opt_timeout = Some 5000\<rparr>"
  let ?r = "snd (execPioCommand spawn [''--version''] ?opts)"
  have 1: "\<forall>e. snd (checkInstallation spawn) = Inl e \<longrightarrow> \<not> isNotInstalledError e"
    by (auto simp: checkInstallation_snd split: sum.splits if_splits)
  have 2: "snd (checkInstallation spawn) = Inr False"
    if "spawn ''pio'' [''--version''] (spawnOptions ?opts) = Inl e1"
      "isPlatformIONotFoundError (ExecError e1)"
      "spawn ''platformio'' [''--version''] (spawnOptions ?opts) = Inl e2"
      "isPlatformIONotFoundError (ExecError e2)" for e1 e2
  proof -
    have "?r = Inl PlatformIONotInstalledError"
      using that by (simp add: execPioCommand_snd invocation_def)
    then show ?thesis
      by (simp add: checkInstallation_snd notInstalled_flags)
  qed
  have 3: "snd (checkInstallation spawn) = Inr True \<longleftrightarrow>
      (\<exists>out. invocation spawn [''--version''] (spawnOptions ?opts) = Inr out \<and>
            str_includes (orEmpty (out_stdout out)) ''PlatformIO'')"
  proof
    assume "snd (checkInstallation spawn) = Inr True"
    then obtain r where r: "?r = Inr r" "exitCode r = CodeNum 0" "str_includes (stdout r) ''PlatformIO''"
      by (auto simp: checkInstallation_snd split: sum.splits if_splits)
    from execPioCommand_Inr_zero [OF r(1,2)] r(3)
    show "\<exists>out. invocation spawn [''--version''] (spawnOptions ?opts) = Inr out \<and>
            str_includes (orEmpty (out_stdout out)) ''PlatformIO''"
      by auto
  next
    assume "\<exists>out. invocation spawn [''--version''] (spawnOptions ?opts) = Inr out \<and>
            str_includes (orEmpty (out_stdout out)) ''PlatformIO''"
    then obtain out where "invocation spawn [''--version''] (spawnOptions ?opts) = Inr out"
      "str_includes (orEmpty (out_stdout out)) ''PlatformIO''" by blast
    then show "snd (checkInstallation spawn) = Inr True"
      by (simp add: checkInstallation_snd execPioCommand_succeeded)
  qed
  have 4: "snd (checkInstallation spawn) = Inr False"
    if "invocation spawn [''--version''] (spawnOptions ?opts) = Inr out"
      "\<not> str_includes (orEmpty (out_stdout out)) ''PlatformIO''" for out
    using that by (simp add: checkInstallation_snd execPioCommand_succeeded)
  from 1 2 3 4 show ?thesis by blast
qed

text \<open>
  Claim C9. When the executor raises an error, \<open>listInstalledLibraries\<close> (without and
  with a project directory) and \<open>listDevices\<close> return the empty list exactly when the error
  is an instance of \<open>PlatformIOError\<close> whose message in lower case contains
  \<open>no libraries\<close> (respectively \<open>no devices\<close>) or \<open>empty\<close>; every other error comes back
  wrapped, in a \<open>LibraryError\<close> or in a \<open>PlatformIOError\<close> with code
  \<open>LIST_DEVICES_FAILED\<close>.
\<close>
theorem list_empty_on_error:
  "(\<forall>e. \<not> truthyStr projectDir \<and>
        snd (executeWithJsonOutput spawn JSON_parse schema ''lib'' [''list'']
               \<lparr>opt_cwd = None, opt_timeout = Some 30000\<rparr>) = Inl e \<longrightarrow>
        snd (listInstalledLibraries pcwd spawn JSON_parse schema projectDir) =
          (if isPlatformIOError e \<and>
              (str_includes (toLowerCase (error_message e)) ''no libraries'' \<or>
               str_includes (toLowerCase (error_message e)) ''empty'')
           then Inr []
           else Inl (LibraryError
                       (''Failed to list installed libraries: '' @ error_toString e)
                       (Some [(''projectDir'', ctxOfStr projectDir)])))) \<and>
   (\<forall>e validatedPath. truthyStr projectDir \<and>
        validateProjectPath pcwd (the projectDir) = Inr validatedPath \<and>
        snd (executeWithJsonOutput spawn JSON_parse schema ''lib'' [''list'']
               \<lparr>opt_cwd = Some validatedPath, opt_timeout = Some 30000\<rparr>) = Inl e \<longrightarrow>
        snd (listInstalledLibraries pcwd spawn JSON_parse schema projectDir) =
          (if isPlatformIOError e \<and>
              (str_includes (toLowerCase (error_message e)) ''no libraries'' \<or>
               str_includes (toLowerCase (error_message e)) ''empty'')
           then Inr []
           else Inl (LibraryError
                       (''Failed to list installed libraries for project at '' @ the projectDir
                          @ '': '' @ error_toString e)
                       (Some [(''projectDir'', ctxOfStr projectDir)])))) \<and>
   (\<forall>e. snd (executeWithJsonOutput spawn JSON_parse dschema ''device'' [''list'']
               \<lparr>opt_cwd = None, opt_timeout = Some 10000\<rparr>) = Inl e \<longrightarrow>
        snd (listDevices spawn JSON_parse dschema) =
          (if isPlatformIOError e \<and>
              (str_includes (toLowerCase (error_message e)) ''no devices'' \<or>
               str_includes (toLowerCase (error_message e)) ''empty'')
           then Inr []
           else Inl (PlatformIOError (''Failed to list devices: '' @ error_toString e)
                       (Some ''LIST_DEVICES_FAILED'') None)))"
  by (auto simp: listInstalledLibraries_def listDevices_def Let_def split_beta)

text \<open>
  Claim C1. The claim is that an input whose naive resolution contains a parent-directory
  segment makes \<open>validateProjectPath\<close> raise. With the working directory
  \<open>/home/user/project\<close> the input \<open>a/../../etc\<close> is such an input, and the function
  returns the collapsed path \<open>/home/user/etc\<close>: \<open>path.resolve\<close> has removed the segments
  before the check looks for them.
\<close>
theorem validateProjectPath_collapses_parent:
  "''..'' \<in> set (splitOn CHR ''/'' (''/home/user/project'' @ ''/'' @ ''a/../../etc'')) \<and>
   validateProjectPath ''/home/user/project'' ''a/../../etc'' = Inr ''/home/user/etc''"
  by code_simp

lemma nf_enoent_pio: "isPlatformIONotFoundError (ExecError (enoentError ''pio''))"
  by code_simp

lemma nf_enoent_platformio: "isPlatformIONotFoundError (ExecError (enoentError ''platformio''))"
  by code_simp

text \<open>Neither binary installed: two calls, then the tool-not-installed error.\<close>
theorem execPioCommand_not_installed_witness:
  "fst (execPioCommand stubMissing [''run''] \<lparr>opt_cwd = None, opt_timeout = None\<rparr>) =
     [(''pio'', [''run''], spawnOptions \<lparr>opt_cwd = None, opt_timeout = None\<rparr>),
      (''platformio'', [''run''], spawnOptions \<lparr>opt_cwd = None, opt_timeout = None\<rparr>)] \<and>
   snd (execPioCommand stubMissing [''run''] \<lparr>opt_cwd = None, opt_timeout = None\<rparr>) =
     Inl PlatformIONotInstalledError"
proof -
  let ?opts = "\<lparr>opt_cwd = None, opt_timeout = None\<rparr>"
  have h1: "stubMissing ''pio'' [''run''] (spawnOptions ?opts) = Inl (enoentError ''pio'')"
    by (simp add: stubMissing_def)
  have h2: "stubMissing ''platformio'' [''run''] (spawnOptions ?opts) = Inl (enoentError ''platformio'')"
    by (simp add: stubMissing_def)
  from execPioCommand_not_installed
      [of stubMissing "[''run'']" ?opts "enoentError ''pio''", OF h1 nf_enoent_pio]
    h2 nf_enoent_platformio
  show ?thesis by blast
qed

lemma nf_toolchainMissing: "isPlatformIONotFoundError (ExecError toolchainMissing)"
  by code_simp

lemma nf_compileError: "\<not> isPlatformIONotFoundError (ExecError compileError)"
  by code_simp

lemma nf_uploadHang: "isPlatformIONotFoundError (ExecError uploadHang)"
  by code_simp

lemma nf_buildHang: "\<not> isPlatformIONotFoundError (ExecError buildHang)"
  by code_simp

lemma invocation_stubProcess:
  "invocation (stubProcess outcome) args so = outcome"
  by (simp add: invocation_def stubProcess_def split: sum.splits)

text \<open>
  Claim C4. The claim is that every invocation whose process exits with a non-zero code and
  a defined standard output returns the record with that code. A build that exits with
  code 1 because its shell does not find the compiler has the words "not found" in the
  message of its error: it is run a second time, as \<open>platformio\<close>, and the outcome is the
  tool-not-installed error. A build that exits with code 1 on a compile error returns the
  record.
\<close>
theorem execPioCommand_exit_code_lost:
  "err_code toolchainMissing = Some (CodeNum 1) \<and>
   err_stdout toolchainMissing = Some ''Compiling .pio/build/uno/src/main.cpp.o'' \<and>
   execPioCommand (stubProcess (Inl toolchainMissing)) [''run'']
       \<lparr>opt_cwd = None, opt_timeout = None\<rparr> =
     ([(''pio'', [''run''], spawnOptions \<lparr>opt_cwd = None, opt_timeout = None\<rparr>),
       (''platformio'', [''run''], spawnOptions \<lparr>opt_cwd = None, opt_timeout = None\<rparr>)],
      Inl PlatformIONotInstalledError) \<and>
   err_code compileError = Some (CodeNum 1) \<and>
   execPioCommand (stubProcess (Inl compileError)) [''run'']
       \<lparr>opt_cwd = None, opt_timeout = None\<rparr> =
     ([(''pio'', [''run''], spawnOptions \<lparr>opt_cwd = None, opt_timeout = None\<rparr>)],
      Inr \<lparr>stdout = ''Compiling .pio/build/uno/src/main.cpp.o'',
           stderr = ''src/main.cpp:3:1: error: expected declaration'',
           exitCode = CodeNum 1\<rparr>)"
proof -
  let ?opts = "\<lparr>opt_cwd = None, opt_timeout = None\<rparr>"
  have 1: "err_code toolchainMissing = Some (CodeNum 1)"
    "err_stdout toolchainMissing = Some ''Compiling .pio/build/uno/src/main.cpp.o''"
    "err_code compileError = Some (CodeNum 1)"
    by (simp_all add: toolchainMissing_def compileError_def exitError_def)
  have 2: "execPioCommand (stubProcess (Inl toolchainMissing)) [''run''] ?opts =
     ([(''pio'', [''run''], spawnOptions ?opts), (''platformio'', [''run''], spawnOptions ?opts)],
      Inl PlatformIONotInstalledError)"
    by (simp add: prod_eq_iff execPioCommand_fst execPioCommand_snd invocation_stubProcess
        nf_toolchainMissing stubProcess_def)
  have "execPioCommand_catch [''run''] (so_timeout (spawnOptions ?opts)) (ExecError compileError) =
      Inr \<lparr>stdout = ''Compiling .pio/build/uno/src/main.cpp.o'',
           stderr = ''src/main.cpp:3:1: error: expected declaration'',
           exitCode = CodeNum 1\<rparr>"
    by (simp add: execPioCommand_catch_def nf_compileError)
       (simp add: compileError_def exitError_def orEmpty_def)
  then have 3: "execPioCommand (stubProcess (Inl compileError)) [''run''] ?opts =
     ([(''pio'', [''run''], spawnOptions ?opts)],
      Inr \<lparr>stdout = ''Compiling .pio/build/uno/src/main.cpp.o'',
           stderr = ''src/main.cpp:3:1: error: expected declaration'',
           exitCode = CodeNum 1\<rparr>)"
    by (simp add: prod_eq_iff execPioCommand_fst execPioCommand_snd invocation_stubProcess
        nf_compileError stubProcess_def)
  from 1 2 3 show ?thesis by blast
qed

text \<open>
  Claim C5. The claim is that every invocation whose process is killed at its timeout raises
  \<open>CommandTimeoutError\<close> with the command and the timeout. An upload killed at its timeout
  after it has written "not found" to its standard error is run a second time, as
  \<open>platformio\<close>, and the outcome is the tool-not-installed error. A build killed at its
  timeout without those words raises the timeout error, with the timeout of the call or
  with 300000 when the caller gives none.
\<close>
theorem execPioCommand_timeout_lost:
  "err_killed uploadHang \<and> err_signal uploadHang = Some ''SIGTERM'' \<and>
   execPioCommand (stubProcess (Inl uploadHang)) [''run'', ''-t'', ''upload'']
       \<lparr>opt_cwd = None, opt_timeout = Some 60000\<rparr> =
     ([(''pio'', [''run'', ''-t'', ''upload''],
          spawnOptions \<lparr>opt_cwd = None, opt_timeout = Some 60000\<rparr>),
       (''platformio'', [''run'', ''-t'', ''upload''],
          spawnOptions \<lparr>opt_cwd = None, opt_timeout = Some 60000\<rparr>)],
      Inl PlatformIONotInstalledError) \<and>
   \<not> isNotInstalledError (CommandTimeoutError ''run -t upload'' 60000) \<and>
   err_killed buildHang \<and> err_signal buildHang = Some ''SIGTERM'' \<and>
   execPioCommand (stubProcess (Inl buildHang)) [''run''] \<lparr>opt_cwd = None, opt_timeout = Some 60000\<rparr> =
     ([(''pio'', [''run''], spawnOptions \<lparr>opt_cwd = None, opt_timeout = Some 60000\<rparr>)],
      Inl (CommandTimeoutError ''run'' 60000)) \<and>
   execPioCommand (stubProcess (Inl buildHang)) [''run''] \<lparr>opt_cwd = None, opt_timeout = None\<rparr> =
     ([(''pio'', [''run''], spawnOptions \<lparr>opt_cwd = None, opt_timeout = None\<rparr>)],
      Inl (CommandTimeoutError ''run'' 300000))"
proof -
  have k: "err_killed uploadHang" "err_signal uploadHang = Some ''SIGTERM''"
    "err_killed buildHang" "err_signal buildHang = Some ''SIGTERM''"
    by (simp_all add: uploadHang_def buildHang_def killedError_def)
  have 1: "execPioCommand (stubProcess (Inl uploadHang)) [''run'', ''-t'', ''upload'']
       \<lparr>opt_cwd = None, opt_timeout = Some 60000\<rparr> =
     ([(''pio'', [''run'', ''-t'', ''upload''],
          spawnOptions \<lparr>opt_cwd = None, opt_timeout = Some 60000\<rparr>),
       (''platformio'', [''run'', ''-t'', ''upload''],
          spawnOptions \<lparr>opt_cwd = None, opt_timeout = Some 60000\<rparr>)],
      Inl PlatformIONotInstalledError)"
    by (simp add: prod_eq_iff execPioCommand_fst execPioCommand_snd invocation_stubProcess
        nf_uploadHang stubProcess_def)
  have c: "execPioCommand_catch args t (ExecError buildHang) =
      Inl (CommandTimeoutError (join '' '' args) t)" for args t
    by (simp add: execPioCommand_catch_def k)
  have 2: "execPioCommand (stubProcess (Inl buildHang)) [''run''] \<lparr>opt_cwd = None, opt_timeout = Some 60000\<rparr> =
     ([(''pio'', [''run''], spawnOptions \<lparr>opt_cwd = None, opt_timeout = Some 60000\<rparr>)],
      Inl (CommandTimeoutError ''run'' 60000))"
    by (simp add: prod_eq_iff execPioCommand_fst execPioCommand_snd invocation_stubProcess
        nf_buildHang stubProcess_def c)
       (simp add: spawnOptions_def)
  have 3: "execPioCommand (stubProcess (Inl buildHang)) [''run''] \<lparr>opt_cwd = None, opt_timeout = None\<rparr> =
     ([(''pio'', [''run''], spawnOptions \<lparr>opt_cwd = None, opt_timeout = None\<rparr>)],
      Inl (CommandTimeoutError ''run'' 300000))"
    by (simp add: prod_eq_iff execPioCommand_fst execPioCommand_snd invocation_stubProcess
        nf_buildHang stubProcess_def c)
       (simp add: spawnOptions_def DEFAULT_TIMEOUT_def)
  from k 1 2 3 timeoutError_class [of "''run -t upload''" 60000] show ?thesis by blast
qed

text \<open>A compile error under \<open>executeWithJsonOutput\<close>.\<close>
theorem executeWithJsonOutput_command_failed_witness:
  "snd (executeWithJsonOutput (stubProcess (Inl compileError)) stubJSONparse idSchema
          ''run'' [] \<lparr>opt_cwd = None, opt_timeout = None\<rparr>) =
     Inl (PlatformIOError ''PlatformIO command failed: run ''
            (Some ''COMMAND_FAILED'')
            (Some [(''stderr'', CtxStr ''src/main.cpp:3:1: error: expected declaration''),
                   (''exitCode'', CtxCode (CodeNum 1))]))"
proof -
  let ?opts = "\<lparr>opt_cwd = None, opt_timeout = None\<rparr>"
  let ?r = "\<lparr>stdout = ''Compiling .pio/build/uno/src/main.cpp.o'',
             stderr = ''src/main.cpp:3:1: error: expected declaration'',
             exitCode = CodeNum 1\<rparr>"
  have "snd (execPioCommand (stubProcess (Inl compileError)) (''run'' # withJsonOutput []) ?opts) =
          execPioCommand_catch (''run'' # withJsonOutput []) (so_timeout (spawnOptions ?opts))
            (ExecError compileError)"
    by (rule execPioCommand_failed [OF invocation_stubProcess nf_compileError])
  also have "\<dots> = Inr ?r"
    by (simp add: execPioCommand_catch_def nf_compileError)
       (simp add: compileError_def exitError_def orEmpty_def)
  finally have h: "snd (execute (stubProcess (Inl compileError)) ''run'' (withJsonOutput []) ?opts) = Inr ?r"
    by (simp add: execute_def)
  have "exitCode ?r \<noteq> CodeNum 0" by simp
  from executeWithJsonOutput_command_failed [OF h this, of stubJSONparse idSchema]
  show ?thesis by simp
qed

lemma invocation_stubBody:
  "invocation (stubBody body) args so = Inr \<lparr>out_stdout = Some body, out_stderr = Some []\<rparr>"
  by (simp add: stubBody_def invocation_stubProcess)

text \<open>The round-trip of the specification against the schema that requires a string
  \<open>id\<close>, and a body of white space.\<close>
theorem executeWithJsonOutput_cases_witness:
  \<open>snd (executeWithJsonOutput (stubBody ''{"id":"x"}'') stubJSONparse idSchema ''lib'' [''list'']
          \<lparr>opt_cwd = None, opt_timeout = None\<rparr>) = Inr (JObj [(''id'', JStr ''x'')]) \<and>
   snd (executeWithJsonOutput (stubBody ''not json'') stubJSONparse idSchema ''lib'' [''list'']
          \<lparr>opt_cwd = None, opt_timeout = None\<rparr>) =
     Inl (PlatformIOError
            ''Invalid JSON output from PlatformIO: Unexpected token o in JSON at position 1''
            (Some ''INVALID_JSON'') (Some [(''output'', CtxStr ''not json'')])) \<and>
   snd (executeWithJsonOutput (stubBody ''{}'') stubJSONparse idSchema ''lib'' [''list'']
          \<lparr>opt_cwd = None, opt_timeout = None\<rparr>) =
     Inl (PlatformIOError ''Failed to parse PlatformIO output: Required''
            (Some ''PARSE_ERROR'')
            (Some [(''zodError'', CtxIssues [\<lparr>issue_path = [''id''], issue_message = ''Required''\<rparr>]),
                   (''output'', CtxStr ''{}'')])) \<and>
   snd (executeWithJsonOutput (stubBody ''  '') stubJSONparse idSchema ''lib'' [''list'']
          \<lparr>opt_cwd = None, opt_timeout = None\<rparr>) =
     Inl (PlatformIOError ''Empty output from PlatformIO command'' None None)\<close>
proof -
  note c = executeWithJsonOutput_cases [where command = "''lib''" and args = "[''list'']"
      and opts = "\<lparr>opt_cwd = None, opt_timeout = None\<rparr>" and JSON_parse = stubJSONparse
      and schema = idSchema, OF invocation_stubBody]
  have t: \<open>trim ''{"id":"x"}'' \<noteq> []\<close> "trim ''not json'' \<noteq> []" "trim ''{}'' \<noteq> []" "trim ''  '' = []"
    by (simp_all add: trim_def isWhiteSpace_def)
  have p: \<open>stubJSONparse ''{"id":"x"}'' = Inr (JObj [(''id'', JStr ''x'')])\<close>
    "stubJSONparse ''not json'' = Inl (SyntaxError ''Unexpected token o in JSON at position 1'')"
    "stubJSONparse ''{}'' = Inr (JObj [])"
    by (simp_all add: stubJSONparse_def)
  have s: "idSchema (JObj [(''id'', JStr ''x'')]) = Inr (JObj [(''id'', JStr ''x'')])"
    "idSchema (JObj []) =
       Inl (ZodError [\<lparr>issue_path = [''id''], issue_message = ''Required''\<rparr>] ''Required'')"
    by (simp_all add: idSchema_def)
  from c [of \<open>''{"id":"x"}''\<close>] t(1) p(1) s(1)
  have 1: \<open>snd (executeWithJsonOutput (stubBody ''{"id":"x"}'') stubJSONparse idSchema ''lib'' [''list'']
          \<lparr>opt_cwd = None, opt_timeout = None\<rparr>) = Inr (JObj [(''id'', JStr ''x'')])\<close>
    by (simp add: orEmpty_def)
  from c [of "''not json''"] t(2) p(2)
  have 2: "snd (executeWithJsonOutput (stubBody ''not json'') stubJSONparse idSchema ''lib'' [''list'']
          \<lparr>opt_cwd = None, opt_timeout = None\<rparr>) =
     Inl (PlatformIOError
            ''Invalid JSON output from PlatformIO: Unexpected token o in JSON at position 1''
            (Some ''INVALID_JSON'') (Some [(''output'', CtxStr ''not json'')]))"
    by (simp add: orEmpty_def substring0_def)
  from c [of "''{}''"] t(3) p(3) s(2)
  have 3: "snd (executeWithJsonOutput (stubBody ''{}'') stubJSONparse idSchema ''lib'' [''list'']
          \<lparr>opt_cwd = None, opt_timeout = None\<rparr>) =
     Inl (PlatformIOError ''Failed to parse PlatformIO output: Required''
            (Some ''PARSE_ERROR'')
            (Some [(''zodError'', CtxIssues [\<lparr>issue_path = [''id''], issue_message = ''Required''\<rparr>]),
                   (''output'', CtxStr ''{}'')]))"
    by (simp add: orEmpty_def substring0_def)
  from c [of "''  ''"] t(4)
  have 4: "snd (executeWithJsonOutput (stubBody ''  '') stubJSONparse idSchema ''lib'' [''list'']
          \<lparr>opt_cwd = None, opt_timeout = None\<rparr>) =
     Inl (PlatformIOError ''Empty output from PlatformIO command'' None None)"
    by (simp add: orEmpty_def)
  from 1 2 3 4 show ?thesis by blast
qed

text \<open>Neither binary installed; a version banner; an output without the word.\<close>
theorem checkInstallation_result_witness:
  "snd (checkInstallation stubMissing) = Inr False \<and>
   snd (checkInstallation (stubBody ''PlatformIO Core, version 6.1.11'')) = Inr True \<and>
   snd (checkInstallation (stubBody ''pio 6.1.11'')) = Inr False"
proof -
  let ?so = "spawnOptions \<lparr>opt_cwd = None, opt_timeout = Some 5000\<rparr>"
  have m: "stubMissing ''pio'' [''--version''] ?so = Inl (enoentError ''pio'')"
    "stubMissing ''platformio'' [''--version''] ?so = Inl (enoentError ''platformio'')"
    by (simp_all add: stubMissing_def)
  have i1: "str_includes (orEmpty (out_stdout \<lparr>out_stdout = Some ''PlatformIO Core, version 6.1.11'',
      out_stderr = Some []\<rparr>)) ''PlatformIO''"
    by (simp add: orEmpty_def)
  have i2: "\<not> str_includes (orEmpty (out_stdout \<lparr>out_stdout = Some ''pio 6.1.11'',
      out_stderr = Some []\<rparr>)) ''PlatformIO''"
    by (simp add: orEmpty_def)
  from checkInstallation_result [of stubMissing] m nf_enoent_pio nf_enoent_platformio
  have 1: "snd (checkInstallation stubMissing) = Inr False" by blast
  from checkInstallation_result [of "stubBody ''PlatformIO Core, version 6.1.11''"]
    invocation_stubBody [of "''PlatformIO Core, version 6.1.11''" "[''--version'']" ?so] i1
  have 2: "snd (checkInstallation (stubBody ''PlatformIO Core, version 6.1.11'')) = Inr True" by blast
  from checkInstallation_result [of "stubBody ''pio 6.1.11''"]
    invocation_stubBody [of "''pio 6.1.11''" "[''--version'']" ?so] i2
  have 3: "snd (checkInstallation (stubBody ''pio 6.1.11'')) = Inr False" by blast
  from 1 2 3 show ?thesis by blast
qed

lemma executeWithJsonOutput_error:
  assumes "snd (execute spawn command (withJsonOutput args) opts) = Inl e"
  shows "snd (executeWithJsonOutput spawn JSON_parse schema command args opts) = Inl e"
  using assms by (simp add: executeWithJsonOutput_def withJsonOutput_def Let_def split_beta)

lemma lower_empty_output:
  "str_includes (toLowerCase ''Empty output from PlatformIO command'') ''empty''"
  by code_simp

lemma lower_notInstalled:
  "\<not> str_includes (toLowerCase (error_message PlatformIONotInstalledError)) ''no devices''"
  "\<not> str_includes (toLowerCase (error_message PlatformIONotInstalledError)) ''empty''"
  by code_simp+

text \<open>An empty standard output is swallowed, with and without a project directory; a
  missing tool is wrapped.\<close>
theorem list_empty_on_error_witness:
  "snd (listInstalledLibraries ''/home/user'' (stubBody []) stubJSONparse arraySchema None) = Inr [] \<and>
   snd (listInstalledLibraries ''/home/user'' (stubBody []) stubJSONparse arraySchema (Some ''blink''))
     = Inr [] \<and>
   snd (listDevices stubMissing stubJSONparse arraySchema) =
     Inl (PlatformIOError
            (''Failed to list devices: '' @ error_toString PlatformIONotInstalledError)
            (Some ''LIST_DEVICES_FAILED'') None)"
proof -
  let ?empty = "PlatformIOError ''Empty output from PlatformIO command'' None None"
  have e: "snd (executeWithJsonOutput (stubBody []) stubJSONparse arraySchema ''lib'' [''list'']
             opts) = Inl ?empty" for opts
    unfolding executeWithJsonOutput_zero_exit [OF invocation_stubBody]
    by (simp add: parsePioJsonOutput_def orEmpty_def)
  have m: "isPlatformIOError ?empty"
    "str_includes (toLowerCase (error_message ?empty)) ''empty''"
    by (simp_all add: PlatformIOError_def lower_empty_output)
  have v: "validateProjectPath ''/home/user'' ''blink'' = Inr ''/home/user/blink''"
    by code_simp
  have n: "snd (executeWithJsonOutput stubMissing stubJSONparse arraySchema ''device'' [''list'']
             \<lparr>opt_cwd = None, opt_timeout = Some 10000\<rparr>) = Inl PlatformIONotInstalledError"
    by (rule executeWithJsonOutput_error)
       (simp add: execute_def execPioCommand_snd invocation_def stubMissing_def nf_enoent_pio
          nf_enoent_platformio)
  note t = list_empty_on_error [where JSON_parse = stubJSONparse and schema = arraySchema
      and dschema = arraySchema and pcwd = "''/home/user''"]
  from t [where spawn = "stubBody []" and projectDir = None] e m
  have 1: "snd (listInstalledLibraries ''/home/user'' (stubBody []) stubJSONparse arraySchema None)
      = Inr []"
    by (simp add: truthyStr_def)
  from t [where spawn = "stubBody []" and projectDir = "Some ''blink''"] e m v
  have 2: "snd (listInstalledLibraries ''/home/user'' (stubBody []) stubJSONparse arraySchema
      (Some ''blink'')) = Inr []"
    by (simp add: truthyStr_def)
  from t [where spawn = stubMissing and projectDir = None] n lower_notInstalled
  have 3: "snd (listDevices stubMissing stubJSONparse arraySchema) =
     Inl (PlatformIOError
            (''Failed to list devices: '' @ error_toString PlatformIONotInstalledError)
            (Some ''LIST_DEVICES_FAILED'') None)"
    by simp
  from 1 2 3 show ?thesis by blast
qed

end
